theory Spec2Isabelle
  imports Main "HOL-Library.Word" "HOL-Library.Sublist"
begin

section \<open>JavaScript strings\<close>

text \<open>
  A JavaScript string is a sequence of UTF-16 code units. The operations the program
  uses (\<^verbatim>\<open>===\<close>, \<^verbatim>\<open>length\<close>, \<^verbatim>\<open>trim\<close>, \<^verbatim>\<open>replace\<close>,
  \<^verbatim>\<open>split\<close>, \<^verbatim>\<open>includes\<close>, \<^verbatim>\<open>join\<close>) all work on code units, so a string is
  a list of 16-bit words. \<open>js\<close> turns an ASCII literal into such a string.
\<close>

type_synonym jschar = "16 word"
type_synonym jsstr = "jschar list"

definition js :: "string \<Rightarrow> jsstr" where
  "js s = map of_char s"

text \<open>
  The code units \<^verbatim>\<open>String.prototype.trim\<close> removes: the WhiteSpace and LineTerminator
  productions of ECMAScript (TAB, LF, VT, FF, CR, SP, NBSP, the Unicode space separators,
  LS, PS and the byte order mark).
\<close>

definition is_space :: "jschar \<Rightarrow> bool" where
  "is_space c \<longleftrightarrow>
     c = 0x09 \<or> c = 0x0A \<or> c = 0x0B \<or> c = 0x0C \<or> c = 0x0D \<or> c = 0x20 \<or>
     c = 0xA0 \<or> c = 0x1680 \<or> (0x2000 \<le> c \<and> c \<le> 0x200A) \<or>
     c = 0x2028 \<or> c = 0x2029 \<or> c = 0x202F \<or> c = 0x205F \<or> c = 0x3000 \<or>
     c = 0xFEFF"

definition trim :: "jsstr \<Rightarrow> jsstr" where
  "trim s = rev (dropWhile is_space (rev (dropWhile is_space s)))"

text \<open>
  \<^verbatim>\<open>s.replace(pat, '')\<close> with a string pattern: the first occurrence of \<open>pat\<close> is
  removed, and \<open>s\<close> is returned as it is when \<open>pat\<close> does not occur. The empty pattern
  occurs at position 0, and removing it changes nothing.
\<close>

fun remove_first :: "jsstr \<Rightarrow> jsstr \<Rightarrow> jsstr" where
  "remove_first pat [] = []"
| "remove_first pat (c # cs) =
     (if prefix pat (c # cs) then drop (length pat) (c # cs)
      else c # remove_first pat cs)"

section \<open>Environment resolution (environment-targets)\<close>

text \<open>
  \<^verbatim>\<open>onDeploymentChecks\<close> returns the environment (a string) or \<^verbatim>\<open>false\<close>; the
  model returns \<open>Some\<close> of the string, or \<open>None\<close> for \<^verbatim>\<open>false\<close>. The body of the
  \<^verbatim>\<open>for\<close> loop is \<open>target_checks\<close>: it gives the value returned in this iteration,
  or \<open>None\<close> when the loop goes on to the next target. The checks are in the order of
  the source; the two \<^verbatim>\<open>if\<close> chains of the loop body follow each other.
\<close>

definition target_checks ::
  "jsstr \<Rightarrow> jsstr \<Rightarrow> jsstr \<Rightarrow> jsstr \<Rightarrow> jsstr \<Rightarrow> jsstr \<Rightarrow> jsstr option" where
  "target_checks target body trigger noop_trigger stable_branch environment =
     (if trim (remove_first trigger body) = target then Some target
      else if trim (remove_first (trigger @ js '' '' @ noop_trigger) body) = target
        then Some target
      else if trim (remove_first trigger body) = js ''to '' @ target then Some target
      else if trim (remove_first (trigger @ js '' '' @ noop_trigger) body) = js ''to '' @ target
        then Some target
      else if trim (remove_first (trigger @ js '' '' @ stable_branch) body) = js ''to '' @ target
        then Some target
      else if trim (remove_first (trigger @ js '' '' @ stable_branch) body) = target
        then Some target
      else if trim body = trigger then Some environment
      else if trim body = trigger @ js '' '' @ noop_trigger then Some environment
      else if trim body = trigger @ js '' '' @ stable_branch then Some environment
      else None)"

fun onDeploymentChecks ::
  "jsstr list \<Rightarrow> jsstr \<Rightarrow> jsstr \<Rightarrow> jsstr \<Rightarrow> jsstr \<Rightarrow> jsstr \<Rightarrow> jsstr option" where
  "onDeploymentChecks [] body trigger noop_trigger stable_branch environment = None"
| "onDeploymentChecks (target # targets) body trigger noop_trigger stable_branch environment =
     (case target_checks target body trigger noop_trigger stable_branch environment of
        Some found \<Rightarrow> Some found
      | None \<Rightarrow> onDeploymentChecks targets body trigger noop_trigger stable_branch environment)"

section \<open>More string operations\<close>

text \<open>\<^verbatim>\<open>s.split(sep)\<close> for a separator of one code unit; the result is never empty.\<close>

fun js_split :: "jschar \<Rightarrow> jsstr \<Rightarrow> jsstr list" where
  "js_split sep [] = [[]]"
| "js_split sep (c # cs) =
     (if c = sep then [] # js_split sep cs
      else (case js_split sep cs of
              [] \<Rightarrow> [[c]]
            | x # xs \<Rightarrow> (c # x) # xs))"

text \<open>\<^verbatim>\<open>xs.join(sep)\<close>.\<close>

fun js_join :: "jsstr \<Rightarrow> jsstr list \<Rightarrow> jsstr" where
  "js_join sep [] = []"
| "js_join sep [x] = x"
| "js_join sep (x # y # ys) = x @ sep @ js_join sep (y # ys)"

text \<open>\<^verbatim>\<open>s.includes(pat)\<close>.\<close>

fun js_includes :: "jsstr \<Rightarrow> jsstr \<Rightarrow> bool" where
  "js_includes [] pat \<longleftrightarrow> pat = []"
| "js_includes (c # cs) pat \<longleftrightarrow> prefix pat (c # cs) \<or> js_includes cs pat"

text \<open>
  \<^verbatim>\<open>s.replace(/\\x/g, y)\<close>: every backslash followed by the code unit \<open>x\<close> becomes
  the code unit \<open>y\<close>, scanning from the left.
\<close>

fun unescape :: "jschar \<Rightarrow> jschar \<Rightarrow> jsstr \<Rightarrow> jsstr" where
  "unescape x y (a # b # cs) =
     (if a = 0x5C \<and> b = x then y # unescape x y cs else a # unescape x y (b # cs))"
| "unescape x y cs = cs"

definition nl :: jsstr where
  "nl = [0x0A]"

text \<open>A template literal that spans several source lines, given line by line.\<close>

definition template :: "jsstr list \<Rightarrow> jsstr" where
  "template lines = js_join nl lines"

section \<open>Values that may be missing\<close>

text \<open>
  A parameter documented as a string can also arrive as \<^verbatim>\<open>undefined\<close> or
  \<^verbatim>\<open>null\<close>. \<open>falsy\<close> is the test \<^verbatim>\<open>!v\<close>, \<open>missing\<close> the test
  \<^verbatim>\<open>!v || v.length === 0\<close>, and \<open>to_string\<close> is what a template literal writes
  for \<^verbatim>\<open>${v}\<close>.
\<close>

datatype jsval = Undefined | Null | Str jsstr

fun falsy :: "jsval \<Rightarrow> bool" where
  "falsy Undefined = True"
| "falsy Null = True"
| "falsy (Str s) = (s = [])"

fun missing :: "jsval \<Rightarrow> bool" where
  "missing (Str s) \<longleftrightarrow> falsy (Str s) \<or> length s = 0"
| "missing v \<longleftrightarrow> falsy v"

fun to_string :: "jsval \<Rightarrow> jsstr" where
  "to_string Undefined = js ''undefined''"
| "to_string Null = js ''null''"
| "to_string (Str s) = s"

section \<open>The world outside the program\<close>

text \<open>
  An exception is a value: \<open>Error m\<close> is \<^verbatim>\<open>new Error(m)\<close>, \<open>TypeError\<close> is what
  reading a property of \<^verbatim>\<open>undefined\<close> throws, and \<open>ReferenceError\<close> is what the use
  of a name that is declared nowhere throws.
\<close>

datatype error = Error jsstr | TypeError | ReferenceError

text \<open>
  The second argument of \<^verbatim>\<open>actionStatus\<close> is a reaction id as the program holds it,
  or \<^verbatim>\<open>parseInt\<close> of a saved one (kept unevaluated).
\<close>

datatype reaction_arg = ReactionId jsstr | ParseInt jsval

record deployment_request =
  dr_owner :: jsstr
  dr_repo :: jsstr
  dr_ref :: jsstr
  dr_auto_merge :: bool
  dr_required_contexts :: "jsstr list"
  dr_environment :: jsstr
  dr_production_environment :: bool

text \<open>
  Every call that leaves the program: the helper functions of the repository that the
  program imports (\<^verbatim>\<open>contextCheck\<close>, \<^verbatim>\<open>triggerCheck\<close>, \<^verbatim>\<open>reactEmote\<close>,
  \<^verbatim>\<open>validPermissions\<close>, \<^verbatim>\<open>help\<close>, \<^verbatim>\<open>actionStatus\<close>, \<^verbatim>\<open>prechecks\<close>,
  \<^verbatim>\<open>identicalCommitCheck\<close>, \<^verbatim>\<open>createDeploymentStatus\<close>) and the two requests made
  through the client (\<^verbatim>\<open>issues.createComment\<close>, \<^verbatim>\<open>repos.createDeployment\<close>), with the
  arguments that vary. \<open>ActionStatus\<close> carries the reaction, the message and the success
  flag (\<open>None\<close> when the caller passes none); \<open>CreateDeploymentStatus\<close> the ref, the state,
  the deployment id, the environment and the environment url.
\<close>

datatype call =
    IdenticalCommitCheck jsstr
  | ContextCheck
  | TriggerCheck bool jsstr jsstr
  | ReactEmote jsstr
  | ValidPermissions
  | Help jsstr
  | ActionStatus reaction_arg jsstr "bool option"
  | Prechecks jsstr jsstr jsstr jsstr jsstr jsstr bool jsstr jsstr jsstr
  | CreateComment jsstr jsstr
  | CreateDeployment deployment_request
  | CreateDeploymentStatus jsval jsstr jsval jsval jsval

text \<open>
  What the program leaves behind: the state saved for the completion phase
  (\<^verbatim>\<open>core.saveState\<close>), the outputs (\<^verbatim>\<open>core.setOutput\<close>), the failure mark
  (\<^verbatim>\<open>core.setFailed\<close>) and the calls made, oldest first. Log lines
  (\<^verbatim>\<open>core.debug\<close>, \<^verbatim>\<open>info\<close>, \<^verbatim>\<open>warning\<close>, \<^verbatim>\<open>error\<close>) are left out.
\<close>

record world =
  saved :: "string \<rightharpoonup> jsstr"
  outputs :: "string \<rightharpoonup> jsstr"
  failed :: "error option"
  calls :: "call list"

definition empty_world :: world where
  "empty_world = \<lparr>saved = Map.empty, outputs = Map.empty, failed = None, calls = []\<rparr>"

definition saveState :: "string \<Rightarrow> jsstr \<Rightarrow> world \<Rightarrow> world" where
  "saveState name v w = w\<lparr>saved := (saved w)(name \<mapsto> v)\<rparr>"

definition setOutput :: "string \<Rightarrow> jsstr \<Rightarrow> world \<Rightarrow> world" where
  "setOutput name v w = w\<lparr>outputs := (outputs w)(name \<mapsto> v)\<rparr>"

definition setFailed :: "error \<Rightarrow> world \<Rightarrow> world" where
  "setFailed e w = w\<lparr>failed := Some e\<rparr>"

definition log_call :: "call \<Rightarrow> world \<Rightarrow> world" where
  "log_call c w = w\<lparr>calls := calls w @ [c]\<rparr>"

text \<open>The result of \<^verbatim>\<open>prechecks\<close>, of \<^verbatim>\<open>validPermissions\<close> (\<^verbatim>\<open>true\<close> or a message) and
  the \<^verbatim>\<open>data\<close> of the response to \<^verbatim>\<open>createDeployment\<close> (either field may be absent).\<close>

record precheck_result =
  pc_status :: bool
  pc_message :: jsstr
  pc_ref :: jsstr
  pc_sha :: jsstr
  pc_noopMode :: bool

datatype permission = Permitted | Denied jsstr

record deployment_response =
  cd_id :: "jsstr option"
  cd_message :: "jsstr option"

text \<open>
  The collaborators are parameters of the model: what each call answers, \<open>Inl\<close> or
  \<open>Some\<close> of an error when it throws. \<open>dedent\<close> is the function of the package
  \<^verbatim>\<open>dedent-js\<close>. Numbers (ids) are held as the strings \<^verbatim>\<open>core.saveState\<close> and
  \<^verbatim>\<open>core.setOutput\<close> write for them.
\<close>

record platform =
  dedent :: "jsstr \<Rightarrow> jsstr"
  getOctokit_res :: "error option"
  contextCheck_res :: "error + bool"
  triggerCheck_res :: "bool \<Rightarrow> jsstr \<Rightarrow> jsstr \<Rightarrow> error + bool"
  reactEmote_res :: "error + jsstr"
  validPermissions_res :: "error + permission"
  help_res :: "error option"
  actionStatus_res :: "error option"
  prechecks_res :: "error + precheck_result"
  createComment_res :: "error option"
  createDeployment_res :: "error + deployment_response"
  createDeploymentStatus_res :: "error option"

text \<open>
  The values \<^verbatim>\<open>core.getInput\<close> returns, by input name. The two inputs read with
  \<^verbatim>\<open>{required: true}\<close> throw when they are not supplied.
\<close>

record inputs =
  in_trigger :: jsstr
  in_reaction :: jsstr
  in_prefix_only :: jsstr
  in_github_token :: "error + jsstr"
  in_environment :: "error + jsstr"
  in_stable_branch :: jsstr
  in_noop_trigger :: jsstr
  in_production_environment :: jsstr
  in_environment_targets :: jsstr
  in_help_trigger :: jsstr
  in_update_branch :: jsstr
  in_required_contexts :: jsstr
  in_allow_forks :: jsstr
  in_skip_ci :: jsstr
  in_skip_reviews :: jsstr
  in_merge_deploy_mode :: jsstr
  in_admins :: jsstr
  in_environment_urls :: jsstr

text \<open>
  The event context: the actor, the repository, the comment of the payload (absent on an
  event that has none) with its body, id and author, the issue number of the payload
  (absent likewise), and the two environment variables of the log link.
\<close>

record comment =
  c_body :: jsstr
  c_id :: jsstr
  c_user_login :: jsstr

record event_context =
  ctx_actor :: jsstr
  ctx_owner :: jsstr
  ctx_repo :: jsstr
  ctx_comment :: "comment option"
  ctx_issue_number :: "jsstr option"
  ctx_server_url :: jsval
  ctx_run_id :: jsval

section \<open>The environment URL (environment-targets)\<close>

text \<open>
  The loop of \<^verbatim>\<open>findEnvironmentUrl\<close> over the pairs, and what follows the loop (the
  empty list). \<^verbatim>\<open>split('|')\<close> of a pair without a bar has one element, so the url read
  at index 1 is \<^verbatim>\<open>undefined\<close>: it is not \<^verbatim>\<open>'disabled'\<close>, and calling
  \<^verbatim>\<open>match\<close> on it throws. The result is the url, or \<open>None\<close> for \<^verbatim>\<open>null\<close>.
\<close>

fun find_url_loop :: "jsstr \<Rightarrow> jsstr list \<Rightarrow> world \<Rightarrow> (error + jsstr option) \<times> world" where
  "find_url_loop environment [] w =
     (Inr None,
      setOutput ''environment_url'' (js ''null'')
        (saveState ''environment_url'' (js ''null'') w))"
| "find_url_loop environment (environment_url # pairs) w =
     (case js_split 0x7C (trim environment_url) of
        [] \<Rightarrow> find_url_loop environment pairs w
      | name # others \<Rightarrow>
          if name = environment then
            (case others of
               [] \<Rightarrow> (Inl TypeError, w)
             | url # _ \<Rightarrow>
                 if url = js ''disabled'' then
                   (Inr None,
                    setOutput ''environment_url'' (js ''null'')
                      (saveState ''environment_url'' (js ''null'') w))
                 else if \<not> (prefix (js ''http://'') url \<or> prefix (js ''https://'') url) then
                   find_url_loop environment pairs w
                 else
                   (Inr (Some url),
                    setOutput ''environment_url'' url (saveState ''environment_url'' url w)))
          else find_url_loop environment pairs w)"

text \<open>\<open>environment_urls\<close> is a string or \<^verbatim>\<open>null\<close> (\<open>None\<close>).\<close>

definition findEnvironmentUrl ::
  "jsstr \<Rightarrow> jsstr option \<Rightarrow> world \<Rightarrow> (error + jsstr option) \<times> world" where
  "findEnvironmentUrl environment environment_urls w =
     (case environment_urls of
        None \<Rightarrow> (Inr None, w)
      | Some urls \<Rightarrow>
          if trim urls = [] then (Inr None, w)
          else find_url_loop environment (js_split 0x2C (trim urls)) w)"

text \<open>
  \<^verbatim>\<open>environmentTargets\<close> returns the pair of the environment (\<open>None\<close> for
  \<^verbatim>\<open>false\<close>) and its url (\<open>None\<close> for \<^verbatim>\<open>null\<close>). Its module imports
  \<^verbatim>\<open>@actions/core\<close> and \<^verbatim>\<open>dedent-js\<close> only, so where no environment is found the
  name \<^verbatim>\<open>actionStatus\<close> is bound to nothing: after the message is built and
  \<^verbatim>\<open>bypass\<close> saved, the call throws a \<^verbatim>\<open>ReferenceError\<close> and the
  \<^verbatim>\<open>return\<close> that follows is not reached.
\<close>

definition environmentTargets ::
  "platform \<Rightarrow> inputs \<Rightarrow> jsstr \<Rightarrow> jsstr \<Rightarrow> jsstr \<Rightarrow> jsstr \<Rightarrow> jsstr \<Rightarrow> jsstr \<Rightarrow> jsstr option
     \<Rightarrow> world \<Rightarrow> (error + jsstr option \<times> jsstr option) \<times> world" where
  "environmentTargets p inp environment body trigger alt_trigger stable_branch reactionId
       environment_urls w =
     (let environment_targets = in_environment_targets inp;
          environment_targets_sanitized = map trim (js_split 0x2C environment_targets);
          environment_targets_joined = js_join (js '','') environment_targets_sanitized
      in case onDeploymentChecks environment_targets_sanitized body trigger alt_trigger
                stable_branch environment of
           None \<Rightarrow>
             (let message = dedent p (template
                    [[],
                     js ''      No matching environment target found. Please check your command and try again. You can read more about environment targets in the README of this Action.'',
                     [],
                     js ''      > The following environment targets are available: `''
                       @ environment_targets_joined @ js ''`'',
                     js ''    '']);
                  w1 = saveState ''bypass'' (js ''true'') w
              in (Inl ReferenceError, w1))
         | Some environmentDetected \<Rightarrow>
             (case findEnvironmentUrl environmentDetected environment_urls w of
                (Inl e, w1) \<Rightarrow> (Inl e, w1)
              | (Inr environmentUrl, w1) \<Rightarrow> (Inr (Some environmentDetected, environmentUrl), w1)))"

section \<open>The completion phase (post-deploy)\<close>

text \<open>
  The message of \<^verbatim>\<open>postDeploy\<close>: the text and the mark chosen by the status, the
  argument of \<^verbatim>\<open>dedent\<close> (\<open>results_template\<close>), and the line with the environment url.
\<close>

definition deployTypeString :: "jsval \<Rightarrow> jsstr" where
  "deployTypeString noop = (if noop = Str (js ''true'') then js '' **noop** '' else js '' '')"

definition status_message :: "jsstr \<Rightarrow> jsval \<Rightarrow> jsval \<Rightarrow> jsval \<Rightarrow> jsval \<Rightarrow> jsstr" where
  "status_message actor status noop ref environment =
     (if status = Str (js ''success'') then
        js ''**'' @ actor @ js ''** successfully'' @ deployTypeString noop
          @ js ''deployed branch `'' @ to_string ref @ js ''` to **'' @ to_string environment @ js ''**''
      else if status = Str (js ''failure'') then
        js ''**'' @ actor @ js ''** had a failure when'' @ deployTypeString noop
          @ js ''deploying branch `'' @ to_string ref @ js ''` to **'' @ to_string environment @ js ''**''
      else
        js ''Warning:'' @ deployTypeString noop
          @ js ''deployment status is unknown, please use caution'')"

definition deployStatus :: "jsval \<Rightarrow> jsstr" where
  "deployStatus status =
     (if status = Str (js ''success'') then [0x2705]
      else if status = Str (js ''failure'') then [0x274C]
      else [0x26A0, 0xFE0F])"

definition results_template :: "jsstr \<Rightarrow> jsstr \<Rightarrow> jsval \<Rightarrow> jsstr" where
  "results_template mark message customMessage =
     (case customMessage of
        Str custom \<Rightarrow>
          if length custom > 0 then
            (let customMessageFmt = unescape 0x74 0x09 (unescape 0x6E 0x0A custom)
             in template
                  [[],
                   js ''    ### Deployment Results '' @ mark,
                   [],
                   js ''    '' @ message,
                   js ''  '',
                   js ''    <details><summary>Show Results</summary>'',
                   js ''  '',
                   js ''    '' @ customMessageFmt,
                   js ''  '',
                   js ''    </details>'',
                   js ''    ''])
          else template
                 [[], js ''    ### Deployment Results '' @ mark, js ''  '',
                  js ''    '' @ message, js ''    '']
      | _ \<Rightarrow> template
                 [[], js ''    ### Deployment Results '' @ mark, js ''  '',
                  js ''    '' @ message, js ''    ''])"

definition environment_url_line :: "jsval \<Rightarrow> jsval \<Rightarrow> jsval \<Rightarrow> bool \<Rightarrow> jsstr" where
  "environment_url_line environment_url status noop environment_url_in_comment =
     (case environment_url of
        Str url \<Rightarrow>
          if length url > 0 \<and> trim url \<noteq> [] \<and> status = Str (js ''success'')
               \<and> noop \<noteq> Str (js ''true'') \<and> environment_url_in_comment
          then (let environment_url_short =
                      remove_first (js ''http://'') (remove_first (js ''https://'') url)
                in nl @ nl @ js ''> **Environment URL:** ['' @ environment_url_short
                     @ js ''](''  @ url @ js '')'')
          else []
      | _ \<Rightarrow> [])"

definition message_fmt ::
  "platform \<Rightarrow> event_context \<Rightarrow> jsval \<Rightarrow> jsval \<Rightarrow> jsval \<Rightarrow> jsval \<Rightarrow> jsval \<Rightarrow> jsval \<Rightarrow> bool
     \<Rightarrow> jsstr" where
  "message_fmt p ctx status customMessage ref noop environment environment_url
       environment_url_in_comment =
     dedent p (results_template (deployStatus status)
                 (status_message (ctx_actor ctx) status noop ref environment) customMessage)
       @ environment_url_line environment_url status noop environment_url_in_comment"

text \<open>
  \<^verbatim>\<open>postDeploy\<close> returns its value or throws (\<open>Inl\<close>); the second component is the
  list of the calls it made, in order. The function writes no state and no output.
\<close>

definition postDeploy ::
  "platform \<Rightarrow> event_context \<Rightarrow> jsval \<Rightarrow> jsval \<Rightarrow> jsval \<Rightarrow> jsval \<Rightarrow> jsval \<Rightarrow> jsval \<Rightarrow> jsval
     \<Rightarrow> jsval \<Rightarrow> jsval \<Rightarrow> bool \<Rightarrow> (error + jsstr) \<times> call list" where
  "postDeploy p ctx comment_id reaction_id status customMessage ref noop deployment_id
       environment environment_url environment_url_in_comment =
     (if missing comment_id then (Inl (Error (js ''no comment_id provided'')), [])
      else if missing status then (Inl (Error (js ''no status provided'')), [])
      else if missing ref then (Inl (Error (js ''no ref provided'')), [])
      else if missing noop then (Inl (Error (js ''no noop value provided'')), [])
      else if noop \<noteq> Str (js ''true'') \<and> missing deployment_id then
        (Inl (Error (js ''no deployment_id provided'')), [])
      else if noop \<noteq> Str (js ''true'') \<and> missing environment then
        (Inl (Error (js ''no environment provided'')), [])
      else
        (let success = (status = Str (js ''success''));
             update = ActionStatus (ParseInt reaction_id)
               (message_fmt p ctx status customMessage ref noop environment environment_url
                  environment_url_in_comment)
               (Some success)
         in case actionStatus_res p of
              Some e \<Rightarrow> (Inl e, [update])
            | None \<Rightarrow>
                (let deploymentStatus = (if success then js ''success'' else js ''failure'')
                 in if noop = Str (js ''true'') then (Inr (js ''success - noop''), [update])
                    else
                      (let transition = CreateDeploymentStatus ref deploymentStatus
                             deployment_id environment environment_url
                       in case createDeploymentStatus_res p of
                            Some e \<Rightarrow> (Inl e, [update, transition])
                          | None \<Rightarrow> (Inr (js ''success''), [update, transition])))))"

section \<open>The first phase (main)\<close>

text \<open>
  \<^verbatim>\<open>run\<close> is given in pieces, last piece first; each piece takes the world as the
  earlier pieces left it and returns the value of \<^verbatim>\<open>run\<close> or the exception thrown
  inside its \<^verbatim>\<open>try\<close> block. \<open>command_value\<close> is what \<^verbatim>\<open>core.saveState\<close> and
  \<^verbatim>\<open>core.setOutput\<close> write for an id that may be \<^verbatim>\<open>undefined\<close>.
\<close>

definition command_value :: "jsstr option \<Rightarrow> jsstr" where
  "command_value v = (case v of None \<Rightarrow> [] | Some s \<Rightarrow> s)"

definition id_value :: "jsstr option \<Rightarrow> jsval" where
  "id_value v = (case v of None \<Rightarrow> Undefined | Some s \<Rightarrow> Str s)"

definition url_value :: "jsstr option \<Rightarrow> jsval" where
  "url_value v = (case v of None \<Rightarrow> Null | Some s \<Rightarrow> Str s)"

text \<open>Setting the deployment status to \<^verbatim>\<open>in_progress\<close>, to the end of \<^verbatim>\<open>run\<close>.\<close>

definition run_in_progress ::
  "platform \<Rightarrow> jsstr \<Rightarrow> jsstr option \<Rightarrow> precheck_result \<Rightarrow> deployment_response \<Rightarrow> world
     \<Rightarrow> (error + jsstr) \<times> world" where
  "run_in_progress p environment environmentUrl precheckResults createDeploy w =
     (let w1 = log_call (CreateDeploymentStatus (Str (pc_ref precheckResults))
                 (js ''in_progress'') (id_value (cd_id createDeploy)) (Str environment)
                 (url_value environmentUrl)) w
      in case createDeploymentStatus_res p of
           Some e \<Rightarrow> (Inl e, w1)
         | None \<Rightarrow> (Inr (js ''success''), setOutput ''continue'' (js ''true'') w1))"

text \<open>From the required contexts to the answer of \<^verbatim>\<open>createDeployment\<close>.\<close>

definition run_deployment ::
  "platform \<Rightarrow> inputs \<Rightarrow> jsstr \<Rightarrow> jsstr \<Rightarrow> jsstr \<Rightarrow> jsstr \<Rightarrow> jsstr option \<Rightarrow> precheck_result
     \<Rightarrow> world \<Rightarrow> (error + jsstr) \<times> world" where
  "run_deployment p inp owner repo reaction_id environment environmentUrl precheckResults w =
     (let required_contexts = in_required_contexts inp;
          requiredContexts =
            (if required_contexts \<noteq> [] \<and> required_contexts \<noteq> js ''false''
             then map trim (js_split 0x2C required_contexts) else []);
          productionEnvironment = (environment = trim (in_production_environment inp));
          auto_merge = (in_update_branch inp \<noteq> js ''disabled'');
          w1 = log_call (CreateDeployment
                 \<lparr>dr_owner = owner, dr_repo = repo, dr_ref = pc_ref precheckResults,
                  dr_auto_merge = auto_merge, dr_required_contexts = requiredContexts,
                  dr_environment = environment,
                  dr_production_environment = productionEnvironment\<rparr>) w
      in case createDeployment_res p of
           Inl e \<Rightarrow> (Inl e, w1)
         | Inr createDeploy \<Rightarrow>
             (let w2 = saveState ''deployment_id'' (command_value (cd_id createDeploy))
                         (setOutput ''deployment_id'' (command_value (cd_id createDeploy)) w1)
              in case cd_id createDeploy of
                   Some deployment_id \<Rightarrow>
                     run_in_progress p environment environmentUrl precheckResults createDeploy w2
                 | None \<Rightarrow>
                     (case cd_message createDeploy of
                        None \<Rightarrow> (Inl TypeError, w2)
                      | Some message \<Rightarrow>
                          if js_includes message (js ''Auto-merged'') then
                            (let mergeMessage = dedent p (template
                                   [[],
                                    js ''        ### '' @ [0x26A0, 0xFE0F] @ js '' Deployment Warning'',
                                    [],
                                    js ''        - Message: '' @ message,
                                    js ''        - Note: If you have required CI checks, you may need to manually push a commit to re-run them'',
                                    [],
                                    js ''        > Deployment will not continue. Please try again once this branch is up-to-date with the base branch'',
                                    js ''        '']);
                                 w3 = log_call (ActionStatus (ReactionId reaction_id)
                                        mergeMessage None) w2
                             in case actionStatus_res p of
                                  Some e \<Rightarrow> (Inl e, w3)
                                | None \<Rightarrow>
                                    (Inr (js ''safe-exit''), saveState ''bypass'' (js ''true'') w3))
                          else
                            run_in_progress p environment environmentUrl precheckResults
                              createDeploy w2)))"

text \<open>From the resolved environment to the outputs for the no-op mode.\<close>

definition run_prechecks ::
  "platform \<Rightarrow> inputs \<Rightarrow> event_context \<Rightarrow> jsstr \<Rightarrow> jsstr \<Rightarrow> jsstr \<Rightarrow> jsstr \<Rightarrow> jsstr
     \<Rightarrow> jsstr option \<Rightarrow> world \<Rightarrow> (error + jsstr) \<times> world" where
  "run_prechecks p inp ctx body issue_number reaction_id trigger environment environmentUrl w =
     (let w1 = setOutput ''environment'' environment (saveState ''environment'' environment w);
          w2 = log_call (Prechecks body trigger (in_noop_trigger inp) (in_update_branch inp)
                 (in_stable_branch inp) issue_number (in_allow_forks inp = js ''true'')
                 (in_skip_ci inp) (in_skip_reviews inp) environment) w1
      in case prechecks_res p of
           Inl e \<Rightarrow> (Inl e, w2)
         | Inr precheckResults \<Rightarrow>
             (let w3 = setOutput ''sha'' (pc_sha precheckResults)
                         (saveState ''ref'' (pc_ref precheckResults)
                           (setOutput ''ref'' (pc_ref precheckResults) w2))
              in if \<not> pc_status precheckResults then
                   (let w4 = log_call (ActionStatus (ReactionId reaction_id)
                               (pc_message precheckResults) None) w3
                    in case actionStatus_res p of
                         Some e \<Rightarrow> (Inl e, w4)
                       | None \<Rightarrow>
                           (Inr (js ''failure''),
                            setFailed (Error (pc_message precheckResults))
                              (saveState ''bypass'' (js ''true'') w4)))
                 else
                   (let deploymentType =
                          (if pc_noopMode precheckResults then js ''noop'' else js ''branch'');
                        log_url = to_string (ctx_server_url ctx) @ js ''/'' @ ctx_owner ctx
                          @ js ''/'' @ ctx_repo ctx @ js ''/actions/runs/''
                          @ to_string (ctx_run_id ctx);
                        commentBody = dedent p (template
                          [[],
                           js ''      ### Deployment Triggered '' @ [0xD83D, 0xDE80],
                           [],
                           js ''      __'' @ ctx_actor ctx @ js ''__, started a __''
                             @ deploymentType @ js ''__ deployment to __'' @ environment
                             @ js ''__'',
                           [],
                           js ''      You can watch the progress [here]('' @ log_url
                             @ js '') '' @ [0xD83D, 0xDD17],
                           [],
                           js ''      > __Branch__: `'' @ pc_ref precheckResults @ js ''`'',
                           js ''    '']);
                        w4 = log_call (CreateComment issue_number commentBody) w3
                    in case createComment_res p of
                         Some e \<Rightarrow> (Inl e, w4)
                       | None \<Rightarrow>
                           if pc_noopMode precheckResults then
                             (Inr (js ''success - noop''),
                              saveState ''noop'' (js ''true'')
                                (setOutput ''continue'' (js ''true'')
                                  (setOutput ''noop'' (js ''true'') w4)))
                           else
                             run_deployment p inp (ctx_owner ctx) (ctx_repo ctx) reaction_id
                               environment environmentUrl precheckResults
                               (saveState ''noop'' (js ''false'')
                                 (setOutput ''noop'' (js ''false'') w4)))))"

text \<open>The help command: the permission check, the help text and the exit.\<close>

definition run_help :: "platform \<Rightarrow> jsstr \<Rightarrow> world \<Rightarrow> (error + jsstr) \<times> world" where
  "run_help p reaction_id w =
     (let w1 = log_call ValidPermissions w
      in case validPermissions_res p of
           Inl e \<Rightarrow> (Inl e, w1)
         | Inr (Denied validPermissionsRes) \<Rightarrow>
             (let w2 = log_call (ActionStatus (ReactionId reaction_id) validPermissionsRes None) w1
              in case actionStatus_res p of
                   Some e \<Rightarrow> (Inl e, w2)
                 | None \<Rightarrow>
                     (Inr (js ''failure''),
                      setFailed (Error validPermissionsRes)
                        (saveState ''bypass'' (js ''true'') w2)))
         | Inr Permitted \<Rightarrow>
             (let w2 = log_call (Help reaction_id) w1
              in case help_res p of
                   Some e \<Rightarrow> (Inl e, w2)
                 | None \<Rightarrow> (Inr (js ''safe-exit''), saveState ''bypass'' (js ''true'') w2)))"

text \<open>
  From the output \<^verbatim>\<open>triggered\<close> to the test of the resolved environment.
  \<^verbatim>\<open>!environment\<close> holds for \<^verbatim>\<open>false\<close> and for the empty string.
\<close>

definition run_triggered ::
  "platform \<Rightarrow> inputs \<Rightarrow> event_context \<Rightarrow> comment \<Rightarrow> jsstr \<Rightarrow> jsstr \<Rightarrow> jsstr \<Rightarrow> bool
     \<Rightarrow> world \<Rightarrow> (error + jsstr) \<times> world" where
  "run_triggered p inp ctx cmt body issue_number environment isHelp w =
     (let w1 = setOutput ''triggered'' (js ''true'') w;
          w2 = log_call (ReactEmote (in_reaction inp)) w1
      in case reactEmote_res p of
           Inl e \<Rightarrow> (Inl e, w2)
         | Inr reaction_id \<Rightarrow>
             (let w3 = setOutput ''actor_handle'' (c_user_login cmt)
                         (saveState ''reaction_id'' reaction_id
                           (setOutput ''initial_reaction_id'' reaction_id
                             (saveState ''comment_id'' (c_id cmt)
                               (setOutput ''comment_id'' (c_id cmt) w2))))
              in if isHelp then run_help p reaction_id w3
                 else
                   (case environmentTargets p inp environment body (in_trigger inp)
                           (in_noop_trigger inp) (in_stable_branch inp) reaction_id
                           (Some (in_environment_urls inp)) w3 of
                      (Inl e, w4) \<Rightarrow> (Inl e, w4)
                    | (Inr (None, environmentUrl), w4) \<Rightarrow> (Inr (js ''safe-exit''), w4)
                    | (Inr (Some environment', environmentUrl), w4) \<Rightarrow>
                        if environment' = [] then (Inr (js ''safe-exit''), w4)
                        else run_prechecks p inp ctx body issue_number reaction_id
                               (in_trigger inp) environment' environmentUrl w4)))"

text \<open>
  The loop over \<^verbatim>\<open>[isDeploy, isHelp]\<close>: \<open>True\<close> when it reaches the \<^verbatim>\<open>return\<close>
  inside, the second argument being the variable \<^verbatim>\<open>multipleTriggers\<close>.
\<close>

fun multiple_triggers :: "bool list \<Rightarrow> bool \<Rightarrow> bool" where
  "multiple_triggers [] multipleTriggers = False"
| "multiple_triggers (t # ts) multipleTriggers =
     (if t then (if multipleTriggers then True else multiple_triggers ts True)
      else multiple_triggers ts multipleTriggers)"

text \<open>From the body of the comment to the output \<^verbatim>\<open>type\<close>.\<close>

definition run_classify ::
  "platform \<Rightarrow> inputs \<Rightarrow> event_context \<Rightarrow> jsstr \<Rightarrow> world \<Rightarrow> (error + jsstr) \<times> world" where
  "run_classify p inp ctx environment w =
     (case ctx_comment ctx of
        None \<Rightarrow> (Inl TypeError, w)
      | Some cmt \<Rightarrow>
          (let body = trim (c_body cmt);
               prefixOnly = (in_prefix_only inp = js ''true'');
               w1 = log_call ContextCheck w
           in case contextCheck_res p of
                Inl e \<Rightarrow> (Inl e, w1)
              | Inr valid \<Rightarrow>
                  if \<not> valid then (Inr (js ''safe-exit''), w1)
                  else
                    (case ctx_issue_number ctx of
                       None \<Rightarrow> (Inl TypeError, w1)
                     | Some issue_number \<Rightarrow>
                         (let w2 = log_call (TriggerCheck prefixOnly body (in_trigger inp)) w1
                          in case triggerCheck_res p prefixOnly body (in_trigger inp) of
                               Inl e \<Rightarrow> (Inl e, w2)
                             | Inr isDeploy \<Rightarrow>
                                 (let w3 = log_call
                                        (TriggerCheck prefixOnly body (in_help_trigger inp)) w2
                                  in case triggerCheck_res p prefixOnly body
                                            (in_help_trigger inp) of
                                       Inl e \<Rightarrow> (Inl e, w3)
                                     | Inr isHelp \<Rightarrow>
                                         if multiple_triggers [isDeploy, isHelp] False then
                                           (Inr (js ''failure''),
                                            setFailed (Error (js ''IssueOps message contains multiple commands, only one is allowed''))
                                              (setOutput ''triggered'' (js ''false'')
                                                (saveState ''bypass'' (js ''true'') w3)))
                                         else if \<not> isDeploy \<and> \<not> isHelp then
                                           (Inr (js ''safe-exit''),
                                            setOutput ''triggered'' (js ''false'')
                                              (saveState ''bypass'' (js ''true'') w3))
                                         else
                                           run_triggered p inp ctx cmt body issue_number
                                             environment isHelp
                                             (setOutput ''type''
                                                (if isDeploy then js ''deploy'' else js ''help'')
                                                w3))))))"

text \<open>The \<^verbatim>\<open>try\<close> block from its start, and \<^verbatim>\<open>run\<close> with its \<^verbatim>\<open>catch\<close>: after a
  caught exception \<^verbatim>\<open>run\<close> returns \<^verbatim>\<open>undefined\<close> (\<open>None\<close>).\<close>

definition run_try ::
  "platform \<Rightarrow> inputs \<Rightarrow> event_context \<Rightarrow> world \<Rightarrow> (error + jsstr) \<times> world" where
  "run_try p inp ctx w =
     (case in_github_token inp of
        Inl e \<Rightarrow> (Inl e, w)
      | Inr token \<Rightarrow>
          (case in_environment inp of
             Inl e \<Rightarrow> (Inl e, w)
           | Inr environment \<Rightarrow>
               (case getOctokit_res p of
                  Some e \<Rightarrow> (Inl e, w)
                | None \<Rightarrow>
                    (let w1 = saveState ''actionsToken'' token
                                (saveState ''isPost'' (js ''true'') w)
                     in if in_merge_deploy_mode inp = js ''true'' then
                          (Inr (js ''success - merge deploy mode''),
                           saveState ''bypass'' (js ''true'')
                             (log_call (IdenticalCommitCheck environment) w1))
                        else run_classify p inp ctx environment w1))))"

definition run :: "platform \<Rightarrow> inputs \<Rightarrow> event_context \<Rightarrow> world \<Rightarrow> jsstr option \<times> world" where
  "run p inp ctx w =
     (case run_try p inp ctx w of
        (Inr result, w1) \<Rightarrow> (Some result, w1)
      | (Inl e, w1) \<Rightarrow> (None, setFailed e (saveState ''bypass'' (js ''true'') w1)))"

section \<open>Kinds of calls and of results\<close>

text \<open>
  The calls that create a deployment or set its status, the call of \<^verbatim>\<open>prechecks\<close>, and
  the two results of the \<^verbatim>\<open>try\<close> block that stand for an early exit and for a failure.
\<close>

fun is_deployment_call :: "call \<Rightarrow> bool" where
  "is_deployment_call (CreateDeployment request) = True"
| "is_deployment_call (CreateDeploymentStatus ref state deployment_id environment url) = True"
| "is_deployment_call c = False"

fun is_prechecks_call :: "call \<Rightarrow> bool" where
  "is_prechecks_call (Prechecks a b c d e f g h i j) = True"
| "is_prechecks_call c = False"

definition early_exit :: "error + jsstr \<Rightarrow> bool" where
  "early_exit r \<longleftrightarrow> r = Inr (js ''safe-exit'') \<or> r = Inr (js ''failure'')"

section \<open>A sample configuration\<close>

text \<open>
  Concrete collaborators, inputs and event, used where a statement is instantiated. The
  sample \<^verbatim>\<open>triggerCheck\<close> looks for the trigger at the start of the body when
  \<^verbatim>\<open>prefix_only\<close> is set and anywhere in it otherwise; the sample \<^verbatim>\<open>dedent\<close> returns
  its argument.
\<close>

definition sample_platform :: platform where
  "sample_platform =
     \<lparr>dedent = (\<lambda>s. s),
      getOctokit_res = None,
      contextCheck_res = Inr True,
      triggerCheck_res = (\<lambda>prefixOnly body trigger.
         Inr (if prefixOnly then prefix trigger body else js_includes body trigger)),
      reactEmote_res = Inr (js ''123''),
      validPermissions_res = Inr Permitted,
      help_res = None,
      actionStatus_res = None,
      prechecks_res = Inr \<lparr>pc_status = True, pc_message = js ''ok'', pc_ref = js ''test-ref'',
                            pc_sha = js ''abc123'', pc_noopMode = False\<rparr>,
      createComment_res = None,
      createDeployment_res = Inr \<lparr>cd_id = Some (js ''456''), cd_message = None\<rparr>,
      createDeploymentStatus_res = None\<rparr>"

definition sample_inputs :: inputs where
  "sample_inputs =
     \<lparr>in_trigger = js ''.deploy'',
      in_reaction = js ''eyes'',
      in_prefix_only = js ''true'',
      in_github_token = Inr (js ''faketoken''),
      in_environment = Inr (js ''production''),
      in_stable_branch = js ''main'',
      in_noop_trigger = js ''noop'',
      in_production_environment = js ''production'',
      in_environment_targets = js ''production,development,staging'',
      in_help_trigger = js ''.help'',
      in_update_branch = js ''warn'',
      in_required_contexts = js ''false'',
      in_allow_forks = js ''true'',
      in_skip_ci = [],
      in_skip_reviews = [],
      in_merge_deploy_mode = js ''false'',
      in_admins = js ''false'',
      in_environment_urls = []\<rparr>"

definition sample_context :: "jsstr \<Rightarrow> event_context" where
  "sample_context body =
     \<lparr>ctx_actor = js ''monalisa'',
      ctx_owner = js ''corp'',
      ctx_repo = js ''test'',
      ctx_comment = Some \<lparr>c_body = body, c_id = js ''1'', c_user_login = js ''monalisa''\<rparr>,
      ctx_issue_number = Some (js ''7''),
      ctx_server_url = Str (js ''https://github.com''),
      ctx_run_id = Str (js ''12345'')\<rparr>"

definition sample_noop_platform :: platform where
  "sample_noop_platform =
     sample_platform\<lparr>prechecks_res :=
       Inr \<lparr>pc_status = True, pc_message = js ''ok'', pc_ref = js ''test-ref'',
            pc_sha = js ''abc123'', pc_noopMode = True\<rparr>\<rparr>"

section \<open>Collections of definitions\<close>

lemmas world_ops = saveState_def setOutput_def setFailed_def log_call_def

lemmas run_defs = run_def run_try_def run_classify_def run_triggered_def run_help_def
  run_prechecks_def run_deployment_def run_in_progress_def environmentTargets_def
  findEnvironmentUrl_def target_checks_def

lemmas sample_defs = sample_platform_def sample_noop_platform_def sample_inputs_def
  sample_context_def empty_world_def

section \<open>Facts about the string operations\<close>

lemma remove_first_prefix: "remove_first pat (pat @ rest) = rest"
proof (cases "pat @ rest")
  case Nil
  then show ?thesis by simp
next
  case (Cons a list)
  have "prefix pat (a # list)" unfolding Cons [symmetric] by simp
  then have "remove_first pat (a # list) = drop (length pat) (a # list)" by simp
  then show ?thesis unfolding Cons [symmetric] by simp
qed

lemma remove_first_self: "remove_first pat pat = []"
  using remove_first_prefix [of pat "[]"] by simp

lemma remove_first_longer: "length s < length pat \<Longrightarrow> remove_first pat s = s"
proof (induction s)
  case Nil
  then show ?case by simp
next
  case (Cons c cs)
  have "\<not> prefix pat (c # cs)"
    using Cons.prems prefix_length_le by fastforce
  with Cons show ?case by simp
qed

lemma dropWhile_same_length:
  assumes "length (dropWhile P xs) = length xs"
  shows "dropWhile P xs = xs"
proof (cases xs)
  case Nil
  then show ?thesis by simp
next
  case (Cons x xs')
  have "length (dropWhile P xs') \<le> length xs'" by (rule length_dropWhile_le)
  with assms Cons have "\<not> P x" by auto
  with Cons show ?thesis by simp
qed

lemma trim_fixed:
  assumes "trim s = s" and "s \<noteq> []"
  shows "\<not> is_space (hd s)" and "\<not> is_space (last s)"
proof -
  let ?d = "dropWhile is_space s"
  have l1: "length (dropWhile is_space (rev ?d)) \<le> length ?d"
    by (metis length_dropWhile_le length_rev)
  have l2: "length ?d \<le> length s" by (rule length_dropWhile_le)
  have "length (trim s) = length (dropWhile is_space (rev ?d))"
    by (simp add: trim_def)
  with assms(1) have "length (dropWhile is_space (rev ?d)) = length s" by simp
  with l1 l2 have e1: "length ?d = length s" and e2: "length (dropWhile is_space (rev ?d)) = length (rev ?d)"
    by simp_all
  from e1 have d: "?d = s" by (rule dropWhile_same_length)
  from e2 have "dropWhile is_space (rev ?d) = rev ?d" by (rule dropWhile_same_length)
  with d have r: "dropWhile is_space (rev s) = rev s" by simp
  from d assms(2) show "\<not> is_space (hd s)" by (simp add: dropWhile_eq_self_iff)
  from r assms(2) show "\<not> is_space (last s)" by (simp add: dropWhile_eq_self_iff hd_rev)
qed

lemma trim_to_target:
  assumes "e \<noteq> []" and "\<not> is_space (last e)"
  shows "trim (js '' to '' @ e) = js ''to '' @ e"
proof -
  have "dropWhile is_space (js '' to '' @ e) = js ''to '' @ e"
    by (simp add: js_def is_space_def)
  moreover have "dropWhile is_space (rev (js ''to '' @ e)) = rev (js ''to '' @ e)"
    using assms by (cases e rule: rev_cases) (simp_all add: js_def)
  ultimately show ?thesis by (simp add: trim_def)
qed

text \<open>Trimming twice is trimming once, so every sanitized target is its own trim.\<close>

lemma dropWhile_rev_dropWhile:
  "dropWhile P (rev (dropWhile P (rev (dropWhile P s)))) = rev (dropWhile P (rev (dropWhile P s)))"
proof (cases "rev (dropWhile P (rev (dropWhile P s)))")
  case Nil
  show ?thesis unfolding Nil by simp
next
  case (Cons c cs)
  let ?d = "dropWhile P s"
  have "takeWhile P (rev ?d) @ dropWhile P (rev ?d) = rev ?d"
    by (rule takeWhile_dropWhile_id)
  then have "rev (takeWhile P (rev ?d) @ dropWhile P (rev ?d)) = rev (rev ?d)"
    by (rule arg_cong)
  then have "?d = rev (dropWhile P (rev ?d)) @ rev (takeWhile P (rev ?d))"
    by (simp only: rev_rev_ident rev_append)
  with Cons have d: "?d = c # cs @ rev (takeWhile P (rev ?d))" by simp
  then have "?d \<noteq> []" by (cases "dropWhile P s") simp_all
  then have "\<not> P (hd ?d)" by (rule hd_dropWhile)
  moreover from d have "hd ?d = c" by (cases "dropWhile P s") simp_all
  ultimately have "\<not> P c" by simp
  then show ?thesis unfolding Cons by simp
qed

lemma trim_idem: "trim (trim s) = trim s"
proof -
  let ?t = "rev (dropWhile is_space (rev (dropWhile is_space s)))"
  have "dropWhile is_space ?t = ?t" by (rule dropWhile_rev_dropWhile)
  then have "trim ?t = rev (dropWhile is_space (rev ?t))" by (simp add: trim_def)
  also have "\<dots> = ?t" by (simp add: dropWhile_idem)
  finally show ?thesis by (simp add: trim_def)
qed

lemma sanitized_trimmed:
  "t \<in> set (map trim (js_split 0x2C environment_targets)) \<Longrightarrow> trim t = t"
  by (auto simp add: trim_idem)

lemma onDeploymentChecks_append:
  "onDeploymentChecks (xs @ ys) body trigger noop sb env =
     (case onDeploymentChecks xs body trigger noop sb env of
        Some r \<Rightarrow> Some r
      | None \<Rightarrow> onDeploymentChecks ys body trigger noop sb env)"
  by (induction xs) (simp_all split: option.split)

lemma remove_first_absent: "\<not> js_includes s pat \<Longrightarrow> remove_first pat s = s"
  by (induction s) simp_all

lemma includes_after_http:
  "js_includes (js ''http://'' @ rest) (js ''https://'') \<longleftrightarrow> js_includes rest (js ''https://'')"
  by (simp add: js_def)

lemma js_split_not_empty: "js_split sep s \<noteq> []"
  by (induction s) (simp_all split: list.split)

lemma js_split_bar:
  "sep \<in> set s \<Longrightarrow> \<exists>name url others. js_split sep s = name # url # others"
proof (induction s)
  case Nil
  then show ?case by simp
next
  case (Cons c cs)
  show ?case
  proof (cases "c = sep")
    case True
    then show ?thesis
      using js_split_not_empty [of sep cs] by (cases "js_split sep cs") simp_all
  next
    case False
    with Cons.prems have "sep \<in> set cs" by simp
    then obtain name url others where "js_split sep cs = name # url # others"
      using Cons.IH by blast
    with False show ?thesis by simp
  qed
qed

section \<open>Environment resolution\<close>

lemma target_checks_to:
  assumes "e \<noteq> []" and "trim e = e"
  shows "target_checks e (trigger @ js '' to '' @ e) trigger noop sb env = Some e"
proof -
  have "\<not> is_space (last e)" using assms by (simp add: trim_fixed(2))
  with assms(1) have "trim (js '' to '' @ e) = js ''to '' @ e"
    by (rule trim_to_target)
  then have "trim (remove_first trigger (trigger @ js '' to '' @ e)) = js ''to '' @ e"
    by (simp only: remove_first_prefix)
  then show ?thesis by (simp add: target_checks_def)
qed

lemma split_at_first:
  assumes "e \<in> set E"
  shows "\<exists>post. E = takeWhile (\<lambda>t. t \<noteq> e) E @ e # post"
proof -
  have ne: "dropWhile (\<lambda>t. t \<noteq> e) E \<noteq> []"
    using assms by (auto simp add: dropWhile_eq_Nil_conv)
  then have "hd (dropWhile (\<lambda>t. t \<noteq> e) E) = e"
    using hd_dropWhile [of "\<lambda>t. t \<noteq> e" E] by simp
  with ne have "dropWhile (\<lambda>t. t \<noteq> e) E = e # tl (dropWhile (\<lambda>t. t \<noteq> e) E)"
    by (cases "dropWhile (\<lambda>t. t \<noteq> e) E") simp_all
  then have "takeWhile (\<lambda>t. t \<noteq> e) E @ e # tl (dropWhile (\<lambda>t. t \<noteq> e) E) = E"
    using takeWhile_dropWhile_id [of "\<lambda>t. t \<noteq> e" E] by simp
  then show ?thesis by (intro exI [of _ "tl (dropWhile (\<lambda>t. t \<noteq> e) E)"]) simp
qed

lemma filter_dropWhile_spaces:
  "filter (\<lambda>c. \<not> is_space c) (dropWhile is_space s) = filter (\<lambda>c. \<not> is_space c) s"
  by (induction s) simp_all

lemma filter_trim:
  "filter (\<lambda>c. \<not> is_space c) (trim s) = filter (\<lambda>c. \<not> is_space c) s"
proof -
  have "filter (\<lambda>c. \<not> is_space c) (trim s)
          = rev (filter (\<lambda>c. \<not> is_space c) (dropWhile is_space (rev (dropWhile is_space s))))"
    by (simp only: trim_def rev_filter)
  also have "\<dots> = rev (filter (\<lambda>c. \<not> is_space c) (rev (dropWhile is_space s)))"
    by (simp only: filter_dropWhile_spaces)
  also have "\<dots> = filter (\<lambda>c. \<not> is_space c) (dropWhile is_space s)"
    by (simp only: rev_filter rev_rev_ident)
  finally show ?thesis by (simp only: filter_dropWhile_spaces)
qed

lemma to_body_not_trigger: "trim (trigger @ js '' to '' @ e) \<noteq> trigger"
proof
  assume "trim (trigger @ js '' to '' @ e) = trigger"
  then have "filter (\<lambda>c. \<not> is_space c) (trim (trigger @ js '' to '' @ e))
               = filter (\<lambda>c. \<not> is_space c) trigger"
    by (rule arg_cong)
  then have "filter (\<lambda>c. \<not> is_space c) (trigger @ js '' to '' @ e)
               = filter (\<lambda>c. \<not> is_space c) trigger"
    by (simp only: filter_trim)
  then have "filter (\<lambda>c. \<not> is_space c) (js '' to '' @ e) = []"
    by simp
  then show False by (simp add: js_def is_space_def)
qed

lemma onDeploymentChecks_none:
  "(\<forall>t\<in>set ts. target_checks t body trigger noop sb env = None)
   \<Longrightarrow> onDeploymentChecks ts body trigger noop sb env = None"
  by (induction ts) simp_all

lemma js_includes_self: "js_includes s s"
  by (cases s) simp_all

text \<open>
  Claim C1, as amended. Let the body be the trigger, \<open>" to "\<close> and a target \<open>e\<close> of the
  configured list that is not empty and has no white space at its ends (as every
  sanitized target has). Suppose that no target \<open>t\<close> configured before the first
  occurrence of \<open>e\<close> is \<open>"to "\<close> followed by \<open>e\<close>, or is, alone or after \<open>"to "\<close>, what
  is left of the body when the trigger and no-op phrase or the trigger and stable-branch
  phrase is taken out and the rest trimmed; and that, when there is such an earlier target,
  the trimmed body is neither of these two phrases. Then resolution returns \<open>e\<close>. A match
  is decided by equality of strings, so with duplicate aliases the value returned is that
  of the first one.
\<close>

theorem explicit_to_target:
  assumes "e \<in> set E" and "e \<noteq> []" and "trim e = e"
    and "\<forall>t\<in>set (takeWhile (\<lambda>t. t \<noteq> e) E).
           t \<noteq> js ''to '' @ e
           \<and> {trim (remove_first (trigger @ js '' '' @ noop_trigger) (trigger @ js '' to '' @ e)),
               trim (remove_first (trigger @ js '' '' @ stable_branch) (trigger @ js '' to '' @ e))}
              \<inter> {t, js ''to '' @ t} = {}
           \<and> trim (trigger @ js '' to '' @ e)
               \<notin> {trigger @ js '' '' @ noop_trigger, trigger @ js '' '' @ stable_branch}"
  shows "onDeploymentChecks E (trigger @ js '' to '' @ e)
           trigger noop_trigger stable_branch environment = Some e"
proof -
  let ?body = "trigger @ js '' to '' @ e"
  let ?pre = "takeWhile (\<lambda>t. t \<noteq> e) E"
  have "\<not> is_space (last e)" using assms(2,3) by (simp add: trim_fixed(2))
  with assms(2) have "trim (js '' to '' @ e) = js ''to '' @ e" by (rule trim_to_target)
  then have bare: "trim (remove_first trigger ?body) = js ''to '' @ e"
    by (simp only: remove_first_prefix)
  have "target_checks t ?body trigger noop_trigger stable_branch environment = None"
    if t: "t \<in> set ?pre" for t
  proof -
    from t have "t \<noteq> e" by (auto dest: set_takeWhileD)
    moreover from t assms(4) have "t \<noteq> js ''to '' @ e"
      and "trim (remove_first (trigger @ js '' '' @ noop_trigger) ?body) \<noteq> t"
      and "trim (remove_first (trigger @ js '' '' @ noop_trigger) ?body) \<noteq> js ''to '' @ t"
      and "trim (remove_first (trigger @ js '' '' @ stable_branch) ?body) \<noteq> t"
      and "trim (remove_first (trigger @ js '' '' @ stable_branch) ?body) \<noteq> js ''to '' @ t"
      and "trim ?body \<noteq> trigger @ js '' '' @ noop_trigger"
      and "trim ?body \<noteq> trigger @ js '' '' @ stable_branch"
      by auto
    moreover have "trim ?body \<noteq> trigger" by (rule to_body_not_trigger)
    ultimately show ?thesis
      unfolding target_checks_def bare by auto
  qed
  then have none: "onDeploymentChecks ?pre ?body trigger noop_trigger stable_branch environment = None"
    by (intro onDeploymentChecks_none) blast
  obtain post where E: "E = ?pre @ e # post"
    using split_at_first [OF assms(1)] by blast
  have "onDeploymentChecks (?pre @ e # post) ?body
          trigger noop_trigger stable_branch environment = Some e"
    using assms(2,3) none by (simp add: onDeploymentChecks_append target_checks_to)
  with E show ?thesis by simp
qed

theorem explicit_to_target_witness:
  "onDeploymentChecks [js ''production'', js ''staging''] (js ''.deploy'' @ js '' to '' @ js ''staging'')
     (js ''.deploy'') (js ''noop'') (js ''main'') (js ''production'') = Some (js ''staging'')"
proof -
  have "js ''staging'' \<in> set [js ''production'', js ''staging'']" by simp
  moreover have "js ''staging'' \<noteq> []" by (simp add: js_def)
  moreover have "trim (js ''staging'') = js ''staging''"
    by (simp add: trim_def is_space_def js_def)
  moreover have "\<forall>t\<in>set (takeWhile (\<lambda>t. t \<noteq> js ''staging'') [js ''production'', js ''staging'']).
           t \<noteq> js ''to '' @ js ''staging''
           \<and> {trim (remove_first (js ''.deploy'' @ js '' '' @ js ''noop'')
                       (js ''.deploy'' @ js '' to '' @ js ''staging'')),
               trim (remove_first (js ''.deploy'' @ js '' '' @ js ''main'')
                       (js ''.deploy'' @ js '' to '' @ js ''staging''))}
              \<inter> {t, js ''to '' @ t} = {}
           \<and> trim (js ''.deploy'' @ js '' to '' @ js ''staging'')
               \<notin> {js ''.deploy'' @ js '' '' @ js ''noop'', js ''.deploy'' @ js '' '' @ js ''main''}"
    by (simp add: trim_def is_space_def js_def)
  ultimately show ?thesis by (rule explicit_to_target)
qed

text \<open>
  Without these conditions the claim fails: a target configured earlier that reads
  \<open>to staging\<close> takes the body \<open>.deploy to staging\<close>; for the empty target (as a
  trailing comma in the list gives) the body \<open>.deploy to \<close> resolves to nothing; and with
  the no-op trigger \<open>to staging\<close> the body \<open>.deploy to staging\<close> is the no-op phrase, which
  an earlier target resolves to the default environment.
\<close>

theorem explicit_to_target_counterexample:
  "onDeploymentChecks [js ''to staging'', js ''staging''] (js ''.deploy to staging'')
     (js ''.deploy'') (js ''noop'') (js ''main'') (js ''production'') = Some (js ''to staging'')
   \<and> js ''to staging'' \<noteq> js ''staging''
   \<and> onDeploymentChecks [js ''production'', js ''''] (js ''.deploy to '')
     (js ''.deploy'') (js ''noop'') (js ''main'') (js ''production'') = None
   \<and> onDeploymentChecks [js ''production'', js ''staging''] (js ''.deploy to staging'')
     (js ''.deploy'') (js ''to staging'') (js ''main'') (js ''production'') = Some (js ''production'')
   \<and> js ''production'' \<noteq> js ''staging''"
  by (simp add: target_checks_def trim_def is_space_def js_def)

text \<open>
  The conditions in plain terms, for a trigger that starts with no white space and a body
  in which neither the no-op phrase nor the stable-branch phrase occurs: no earlier target
  is \<open>"to "\<close> and \<open>e\<close>, or the body, or the body without a leading \<open>"to "\<close>.
\<close>

lemma explicit_to_target_plain:
  assumes "e \<in> set E" and "e \<noteq> []" and "trim e = e"
    and "trigger \<noteq> []" and "\<not> is_space (hd trigger)"
    and "\<not> js_includes (trigger @ js '' to '' @ e) (trigger @ js '' '' @ noop_trigger)"
    and "\<not> js_includes (trigger @ js '' to '' @ e) (trigger @ js '' '' @ stable_branch)"
    and "\<forall>t\<in>set (takeWhile (\<lambda>t. t \<noteq> e) E).
           t \<noteq> js ''to '' @ e \<and> t \<noteq> trigger @ js '' to '' @ e
           \<and> js ''to '' @ t \<noteq> trigger @ js '' to '' @ e"
  shows "onDeploymentChecks E (trigger @ js '' to '' @ e)
           trigger noop_trigger stable_branch environment = Some e"
proof -
  let ?body = "trigger @ js '' to '' @ e"
  have "\<not> is_space (last e)" using assms(2,3) by (simp add: trim_fixed(2))
  then have "dropWhile is_space (rev ?body) = rev ?body"
    using assms(2) by (cases e rule: rev_cases) simp_all
  moreover have "dropWhile is_space ?body = ?body"
    using assms(4,5) by (cases trigger) simp_all
  ultimately have tb: "trim ?body = ?body" by (simp add: trim_def)
  have rn: "remove_first (trigger @ js '' '' @ noop_trigger) ?body = ?body"
    using assms(6) by (rule remove_first_absent)
  have rs: "remove_first (trigger @ js '' '' @ stable_branch) ?body = ?body"
    using assms(7) by (rule remove_first_absent)
  have "?body \<noteq> trigger @ js '' '' @ noop_trigger"
    using assms(6) js_includes_self [of ?body] by auto
  moreover have "?body \<noteq> trigger @ js '' '' @ stable_branch"
    using assms(7) js_includes_self [of ?body] by auto
  ultimately have "\<forall>t\<in>set (takeWhile (\<lambda>t. t \<noteq> e) E).
           t \<noteq> js ''to '' @ e
           \<and> {trim (remove_first (trigger @ js '' '' @ noop_trigger) ?body),
               trim (remove_first (trigger @ js '' '' @ stable_branch) ?body)}
              \<inter> {t, js ''to '' @ t} = {}
           \<and> trim ?body
               \<notin> {trigger @ js '' '' @ noop_trigger, trigger @ js '' '' @ stable_branch}"
    unfolding rn rs tb using assms(8) by auto
  with assms(1-3) show ?thesis by (rule explicit_to_target)
qed

text \<open>
  Claim C2, as amended. Let the body, with no white space at its ends, be the trigger
  phrase, the trigger and no-op phrase, or the trigger and stable-branch phrase. If the
  first configured target does not match the body under one of the six explicit-target
  checks (the three stripped remainders against the target and against \<open>"to "\<close> and the
  target), resolution returns the default environment; it does so in the first iteration.
\<close>

theorem default_environment:
  assumes "body = trigger \<or> body = trigger @ js '' '' @ noop_trigger
             \<or> body = trigger @ js '' '' @ stable_branch"
    and "trim body = body"
    and "{trim (remove_first trigger body),
          trim (remove_first (trigger @ js '' '' @ noop_trigger) body),
          trim (remove_first (trigger @ js '' '' @ stable_branch) body)}
         \<inter> {target, js ''to '' @ target} = {}"
  shows "onDeploymentChecks (target # targets) body trigger noop_trigger stable_branch environment
           = Some environment"
proof -
  have "target_checks target body trigger noop_trigger stable_branch environment = Some environment"
    unfolding target_checks_def using assms by auto
  then show ?thesis by simp
qed

theorem default_environment_witness:
  "onDeploymentChecks [js ''production'', js ''staging''] (js ''.deploy'' @ js '' '' @ js ''noop'')
     (js ''.deploy'') (js ''noop'') (js ''main'') (js ''production'') = Some (js ''production'')"
proof -
  have "js ''.deploy'' @ js '' '' @ js ''noop'' = js ''.deploy''
      \<or> js ''.deploy'' @ js '' '' @ js ''noop'' = js ''.deploy'' @ js '' '' @ js ''noop''
      \<or> js ''.deploy'' @ js '' '' @ js ''noop'' = js ''.deploy'' @ js '' '' @ js ''main''"
    by simp
  moreover have "trim (js ''.deploy'' @ js '' '' @ js ''noop'') = js ''.deploy'' @ js '' '' @ js ''noop''"
    by (simp add: trim_def is_space_def js_def)
  moreover have "{trim (remove_first (js ''.deploy'') (js ''.deploy'' @ js '' '' @ js ''noop'')),
       trim (remove_first (js ''.deploy'' @ js '' '' @ js ''noop'') (js ''.deploy'' @ js '' '' @ js ''noop'')),
       trim (remove_first (js ''.deploy'' @ js '' '' @ js ''main'') (js ''.deploy'' @ js '' '' @ js ''noop''))}
      \<inter> {js ''production'', js ''to '' @ js ''production''} = {}"
    by (simp add: trim_def is_space_def js_def)
  ultimately show ?thesis by (rule default_environment)
qed

text \<open>
  As stated the claim fails when the first target does match: with the empty target first
  (the list \<open>,production\<close>) the body \<open>.deploy\<close> resolves to the empty target, and with a
  target named as the no-op phrase the body \<open>.deploy noop\<close> resolves to that target.
\<close>

theorem default_environment_counterexample:
  "onDeploymentChecks (map trim (js_split 0x2C (js '',production''))) (js ''.deploy'')
     (js ''.deploy'') (js ''noop'') (js ''main'') (js ''production'') = Some []
   \<and> [] \<noteq> js ''production''
   \<and> onDeploymentChecks [js ''noop'', js ''production''] (js ''.deploy noop'')
     (js ''.deploy'') (js ''noop'') (js ''main'') (js ''production'') = Some (js ''noop'')
   \<and> js ''noop'' \<noteq> js ''production''"
  by (simp add: target_checks_def trim_def is_space_def js_def)

text \<open>
  For the bare trigger phrase the six checks come down to three conditions on the first
  target.
\<close>

lemma bare_trigger_default:
  assumes "trim trigger = trigger" and "target \<noteq> []" and "target \<noteq> trigger" and "trigger \<noteq> js ''to '' @ target"
  shows "onDeploymentChecks (target # targets) trigger trigger noop_trigger stable_branch environment
           = Some environment"
proof -
  have "remove_first (trigger @ js '' '' @ x) trigger = trigger" for x
    by (rule remove_first_longer) (simp add: js_def)
  moreover have "trim [] = []" by (simp add: trim_def)
  ultimately show ?thesis
    using assms by (simp add: target_checks_def remove_first_self)
qed

section \<open>The completion phase\<close>

text \<open>
  What \<^verbatim>\<open>postDeploy\<close> does once its inputs have passed the checks at its start.
\<close>

lemma postDeploy_valid:
  assumes "\<not> missing comment_id" and "\<not> missing status" and "\<not> missing ref"
    and "\<not> missing noop"
    and "noop = Str (js ''true'') \<or> (\<not> missing deployment_id \<and> \<not> missing environment)"
  shows "postDeploy p ctx comment_id reaction_id status customMessage ref noop deployment_id
           environment environment_url environment_url_in_comment =
     (case actionStatus_res p of
        Some e \<Rightarrow>
          (Inl e,
           [ActionStatus (ParseInt reaction_id)
              (message_fmt p ctx status customMessage ref noop environment environment_url
                 environment_url_in_comment)
              (Some (status = Str (js ''success'')))])
      | None \<Rightarrow>
          if noop = Str (js ''true'') then
            (Inr (js ''success - noop''),
             [ActionStatus (ParseInt reaction_id)
                (message_fmt p ctx status customMessage ref noop environment environment_url
                   environment_url_in_comment)
                (Some (status = Str (js ''success'')))])
          else
            (case createDeploymentStatus_res p of
               Some e \<Rightarrow>
                 (Inl e,
                  [ActionStatus (ParseInt reaction_id)
                     (message_fmt p ctx status customMessage ref noop environment environment_url
                        environment_url_in_comment)
                     (Some (status = Str (js ''success''))),
                   CreateDeploymentStatus ref
                     (if status = Str (js ''success'') then js ''success'' else js ''failure'')
                     deployment_id environment environment_url])
             | None \<Rightarrow>
                 (Inr (js ''success''),
                  [ActionStatus (ParseInt reaction_id)
                     (message_fmt p ctx status customMessage ref noop environment environment_url
                        environment_url_in_comment)
                     (Some (status = Str (js ''success''))),
                   CreateDeploymentStatus ref
                     (if status = Str (js ''success'') then js ''success'' else js ''failure'')
                     deployment_id environment environment_url])))"
proof (cases "noop = Str (js ''true'')")
  case True
  with assms(1-4) show ?thesis
    unfolding postDeploy_def by (simp add: Let_def split: option.split)
next
  case False
  with assms(5) have "\<not> missing deployment_id" and "\<not> missing environment" by simp_all
  with False assms(1-4) show ?thesis
    unfolding postDeploy_def by (simp add: Let_def split: option.split)
qed

lemma postDeploy_first_call:
  assumes "\<not> missing comment_id" and "\<not> missing status" and "\<not> missing ref"
    and "\<not> missing noop"
    and "noop = Str (js ''true'') \<or> (\<not> missing deployment_id \<and> \<not> missing environment)"
  shows "\<exists>later. snd (postDeploy p ctx comment_id reaction_id status customMessage ref noop
            deployment_id environment environment_url environment_url_in_comment)
       = ActionStatus (ParseInt reaction_id)
           (message_fmt p ctx status customMessage ref noop environment environment_url
              environment_url_in_comment)
           (Some (status = Str (js ''success''))) # later"
  by (simp add: postDeploy_valid [OF assms] split: option.split)

text \<open>
  Claim C4. When \<^verbatim>\<open>comment_id\<close>, \<^verbatim>\<open>status\<close>, \<^verbatim>\<open>ref\<close> or \<^verbatim>\<open>noop\<close> is missing or
  empty, or \<^verbatim>\<open>noop\<close> is not \<^verbatim>\<open>'true'\<close> and \<^verbatim>\<open>deployment_id\<close> or
  \<^verbatim>\<open>environment\<close> is missing or empty, \<^verbatim>\<open>postDeploy\<close> throws an error and has made no
  call: no comment is updated and no deployment status is set.
\<close>

theorem preconditions_checked_first:
  assumes "missing comment_id \<or> missing status \<or> missing ref \<or> missing noop
           \<or> (noop \<noteq> Str (js ''true'') \<and> (missing deployment_id \<or> missing environment))"
  shows "\<exists>m. postDeploy p ctx comment_id reaction_id status customMessage ref noop deployment_id
            environment environment_url environment_url_in_comment = (Inl (Error m), [])"
  using assms unfolding postDeploy_def by auto

theorem preconditions_checked_first_witness:
  "Str (js ''false'') \<noteq> Str (js ''true'') \<and> missing (Str [])
   \<and> (\<exists>m. postDeploy sample_platform (sample_context (js ''.deploy'')) (Str (js ''1''))
          (Str (js ''123'')) (Str (js ''success'')) Undefined (Str (js ''test-ref''))
          (Str (js ''false'')) (Str []) (Str (js ''production'')) Null False = (Inl (Error m), []))"
proof -
  have h: "Str (js ''false'') \<noteq> Str (js ''true'')" by (simp add: js_def)
  have m: "missing (Str [])" by simp
  from h m have "missing (Str (js ''1'')) \<or> missing (Str (js ''success''))
      \<or> missing (Str (js ''test-ref'')) \<or> missing (Str (js ''false''))
      \<or> (Str (js ''false'') \<noteq> Str (js ''true'')
          \<and> (missing (Str []) \<or> missing (Str (js ''production''))))"
    by blast
  from preconditions_checked_first [OF this] h m show ?thesis by blast
qed

text \<open>
  The message with the argument of \<^verbatim>\<open>dedent\<close> written out, line break by line break,
  for the two forms of the template.
\<close>

lemma message_fmt_template:
  "message_fmt p ctx status customMessage ref noop environment environment_url
       environment_url_in_comment
     = dedent p
         (if (\<exists>custom. customMessage = Str custom \<and> custom \<noteq> [])
          then [0x0A] @ js ''    ### Deployment Results '' @ deployStatus status @ [0x0A] @ [0x0A]
               @ js ''    '' @ status_message (ctx_actor ctx) status noop ref environment @ [0x0A]
               @ js ''  '' @ [0x0A]
               @ js ''    <details><summary>Show Results</summary>'' @ [0x0A]
               @ js ''  '' @ [0x0A]
               @ js ''    '' @ unescape 0x74 0x09 (unescape 0x6E 0x0A (to_string customMessage))
               @ [0x0A]
               @ js ''  '' @ [0x0A]
               @ js ''    </details>'' @ [0x0A]
               @ js ''    ''
          else [0x0A] @ js ''    ### Deployment Results '' @ deployStatus status @ [0x0A]
               @ js ''  '' @ [0x0A]
               @ js ''    '' @ status_message (ctx_actor ctx) status noop ref environment @ [0x0A]
               @ js ''    '')
       @ environment_url_line environment_url status noop environment_url_in_comment"
  by (cases customMessage)
     (simp_all add: message_fmt_def results_template_def template_def nl_def Let_def)

text \<open>
  Claim C8. For every status, missing ones included, the message built is the template
  with a mark and a text that are one of three, together with the success flag: the
  affirmative text with the check mark and \<open>True\<close> for \<^verbatim>\<open>'success'\<close>, the negative
  text with the cross mark and \<open>False\<close> for \<^verbatim>\<open>'failure'\<close>, and the warning that the
  deployment status is unknown with the warning sign and \<open>False\<close> for any other status.
  Building it throws nothing: for inputs that pass the checks at the start of
  \<^verbatim>\<open>postDeploy\<close>, the first call made is the status update with this message and this
  flag.
\<close>

theorem status_three_outcomes:
  "\<exists>mark text flag.
     message_fmt p ctx status customMessage ref noop environment environment_url
         environment_url_in_comment
       = dedent p
           (if (\<exists>custom. customMessage = Str custom \<and> custom \<noteq> [])
            then [0x0A] @ js ''    ### Deployment Results '' @ mark @ [0x0A] @ [0x0A]
                 @ js ''    '' @ text @ [0x0A]
                 @ js ''  '' @ [0x0A]
                 @ js ''    <details><summary>Show Results</summary>'' @ [0x0A]
                 @ js ''  '' @ [0x0A]
                 @ js ''    '' @ unescape 0x74 0x09 (unescape 0x6E 0x0A (to_string customMessage))
                 @ [0x0A]
                 @ js ''  '' @ [0x0A]
                 @ js ''    </details>'' @ [0x0A]
                 @ js ''    ''
            else [0x0A] @ js ''    ### Deployment Results '' @ mark @ [0x0A]
                 @ js ''  '' @ [0x0A]
                 @ js ''    '' @ text @ [0x0A]
                 @ js ''    '')
         @ environment_url_line environment_url status noop environment_url_in_comment
     \<and> (status = Str (js ''success'') \<and> mark = [0x2705] \<and> flag
            \<and> text = js ''**'' @ ctx_actor ctx @ js ''** successfully''
                  @ (if noop = Str (js ''true'') then js '' **noop** '' else js '' '')
                  @ js ''deployed branch `'' @ to_string ref @ js ''` to **''
                  @ to_string environment @ js ''**''
         \<or> status = Str (js ''failure'') \<and> mark = [0x274C] \<and> \<not> flag
            \<and> text = js ''**'' @ ctx_actor ctx @ js ''** had a failure when''
                  @ (if noop = Str (js ''true'') then js '' **noop** '' else js '' '')
                  @ js ''deploying branch `'' @ to_string ref
                  @ js ''` to **'' @ to_string environment @ js ''**''
         \<or> status \<noteq> Str (js ''success'') \<and> status \<noteq> Str (js ''failure'')
            \<and> mark = [0x26A0, 0xFE0F] \<and> \<not> flag
            \<and> text = js ''Warning:''
                  @ (if noop = Str (js ''true'') then js '' **noop** '' else js '' '')
                  @ js ''deployment status is unknown, please use caution'')
     \<and> (\<not> missing comment_id \<and> \<not> missing status \<and> \<not> missing ref \<and> \<not> missing noop
          \<and> (noop = Str (js ''true'')
               \<or> (\<not> missing deployment_id \<and> \<not> missing environment))
        \<longrightarrow> (\<exists>later.
              snd (postDeploy p ctx comment_id reaction_id status customMessage ref noop
                     deployment_id environment environment_url environment_url_in_comment)
                = ActionStatus (ParseInt reaction_id)
                    (message_fmt p ctx status customMessage ref noop environment environment_url
                       environment_url_in_comment)
                    (Some flag) # later))"
proof -
  have sf: "Str (js ''failure'') \<noteq> Str (js ''success'')" by (simp add: js_def)
  show ?thesis
    apply (rule exI [of _ "deployStatus status"])
    apply (rule exI [of _ "status_message (ctx_actor ctx) status noop ref environment"])
    apply (rule exI [of _ "status = Str (js ''success'')"])
    apply (intro conjI impI)
      apply (rule message_fmt_template)
    using sf apply (simp add: deployStatus_def status_message_def deployTypeString_def)
    apply (elim conjE)
    apply (rule postDeploy_first_call)
        apply assumption+
    done
qed

theorem status_three_outcomes_witness:
  "\<exists>later.
     snd (postDeploy sample_platform (sample_context (js ''.deploy'')) (Str (js ''1''))
            (Str (js ''123'')) (Str (js ''unknown'')) Undefined (Str (js ''test-ref''))
            (Str (js ''false'')) (Str (js ''456'')) (Str (js ''production'')) Null False)
       = ActionStatus (ParseInt (Str (js ''123'')))
           ([0x0A] @ js ''    ### Deployment Results '' @ [0x26A0, 0xFE0F] @ [0x0A]
              @ js ''  '' @ [0x0A]
              @ js ''    Warning: deployment status is unknown, please use caution'' @ [0x0A]
              @ js ''    '')
           (Some False) # later"
proof -
  let ?post = "postDeploy sample_platform (sample_context (js ''.deploy'')) (Str (js ''1''))
            (Str (js ''123'')) (Str (js ''unknown'')) Undefined (Str (js ''test-ref''))
            (Str (js ''false'')) (Str (js ''456'')) (Str (js ''production'')) Null False"
  let ?msg = "message_fmt sample_platform (sample_context (js ''.deploy'')) (Str (js ''unknown''))
            Undefined (Str (js ''test-ref'')) (Str (js ''false'')) (Str (js ''production''))
            Null False"
  have v: "\<not> missing (Str (js ''1'')) \<and> \<not> missing (Str (js ''unknown''))
       \<and> \<not> missing (Str (js ''test-ref'')) \<and> \<not> missing (Str (js ''false''))
       \<and> (Str (js ''false'') = Str (js ''true'')
          \<or> (\<not> missing (Str (js ''456'')) \<and> \<not> missing (Str (js ''production''))))"
    by (simp add: js_def)
  have n: "Str (js ''unknown'') \<noteq> Str (js ''success'')"
    "Str (js ''unknown'') \<noteq> Str (js ''failure'')"
    "Str (js ''false'') \<noteq> Str (js ''true'')"
    by (simp_all add: js_def)
  have d: "dedent sample_platform = (\<lambda>s. s)" by (simp add: sample_platform_def)
  have u: "environment_url_line Null (Str (js ''unknown'')) (Str (js ''false'')) False = []"
    by (simp add: environment_url_line_def)
  from status_three_outcomes [of sample_platform "sample_context (js ''.deploy'')"
      "Str (js ''unknown'')" Undefined "Str (js ''test-ref'')" "Str (js ''false'')"
      "Str (js ''production'')" Null False "Str (js ''1'')" "Str (js ''456'')" "Str (js ''123'')"]
  obtain mk tx fl where m: "?msg =
         (if (\<exists>custom. Undefined = Str custom \<and> custom \<noteq> [])
            then [0x0A] @ js ''    ### Deployment Results '' @ mk @ [0x0A] @ [0x0A]
                 @ js ''    '' @ tx @ [0x0A]
                 @ js ''  '' @ [0x0A]
                 @ js ''    <details><summary>Show Results</summary>'' @ [0x0A]
                 @ js ''  '' @ [0x0A]
                 @ js ''    '' @ unescape 0x74 0x09 (unescape 0x6E 0x0A (to_string Undefined))
                 @ [0x0A]
                 @ js ''  '' @ [0x0A]
                 @ js ''    </details>'' @ [0x0A]
                 @ js ''    ''
            else [0x0A] @ js ''    ### Deployment Results '' @ mk @ [0x0A]
                 @ js ''  '' @ [0x0A]
                 @ js ''    '' @ tx @ [0x0A]
                 @ js ''    '')"
    and c: "mk = [0x26A0, 0xFE0F] \<and> \<not> fl
            \<and> tx = js ''Warning:'' @ js '' ''
                  @ js ''deployment status is unknown, please use caution''"
    and f: "\<exists>later. snd ?post = ActionStatus (ParseInt (Str (js ''123''))) ?msg (Some fl) # later"
    unfolding d u using v n by auto
  from m c have "?msg = [0x0A] @ js ''    ### Deployment Results '' @ [0x26A0, 0xFE0F] @ [0x0A]
              @ js ''  '' @ [0x0A]
              @ js ''    Warning: deployment status is unknown, please use caution'' @ [0x0A]
              @ js ''    ''"
    by (simp add: js_def)
  with f c show ?thesis by simp
qed

text \<open>
  Claim C3. The message is the message without any url, followed by the line with the
  environment url exactly when the url is a string that is not empty and not blank, the
  status is \<^verbatim>\<open>'success'\<close>, \<^verbatim>\<open>noop\<close> is not \<^verbatim>\<open>'true'\<close> and the flag
  \<^verbatim>\<open>environment_url_in_comment\<close> is set. The target of the link is the url as given;
  the text shown has \<^verbatim>\<open>'https://'\<close> and \<^verbatim>\<open>'http://'\<close> removed, which for a url that
  starts with its scheme and has no other one inside is the url without the scheme.
\<close>

theorem environment_url_gate:
  "message_fmt p ctx status customMessage ref noop environment environment_url
       environment_url_in_comment =
     message_fmt p ctx status customMessage ref noop environment Null False
     @ (if (\<exists>url. environment_url = Str url \<and> url \<noteq> [] \<and> trim url \<noteq> [])
           \<and> status = Str (js ''success'') \<and> noop \<noteq> Str (js ''true'')
           \<and> environment_url_in_comment
        then nl @ nl @ js ''> **Environment URL:** [''
               @ remove_first (js ''http://'') (remove_first (js ''https://'') (to_string environment_url))
               @ js ''](''  @ to_string environment_url @ js '')''
        else [])
   \<and> ((scheme = js ''https://'' \<or> scheme = js ''http://'')
        \<and> \<not> js_includes rest (js ''https://'') \<and> \<not> js_includes rest (js ''http://'')
        \<longrightarrow> remove_first (js ''http://'') (remove_first (js ''https://'') (scheme @ rest)) = rest)"
proof (intro conjI impI)
  show "message_fmt p ctx status customMessage ref noop environment environment_url
       environment_url_in_comment =
     message_fmt p ctx status customMessage ref noop environment Null False
     @ (if (\<exists>url. environment_url = Str url \<and> url \<noteq> [] \<and> trim url \<noteq> [])
           \<and> status = Str (js ''success'') \<and> noop \<noteq> Str (js ''true'')
           \<and> environment_url_in_comment
        then nl @ nl @ js ''> **Environment URL:** [''
               @ remove_first (js ''http://'') (remove_first (js ''https://'') (to_string environment_url))
               @ js ''](''  @ to_string environment_url @ js '')''
        else [])"
    by (cases environment_url) (simp_all add: message_fmt_def environment_url_line_def)
next
  assume a: "(scheme = js ''https://'' \<or> scheme = js ''http://'')
        \<and> \<not> js_includes rest (js ''https://'') \<and> \<not> js_includes rest (js ''http://'')"
  then consider "scheme = js ''https://''" | "scheme = js ''http://''" by blast
  then show "remove_first (js ''http://'') (remove_first (js ''https://'') (scheme @ rest)) = rest"
  proof cases
    case 1
    then show ?thesis using a by (simp add: remove_first_prefix remove_first_absent)
  next
    case 2
    have "remove_first (js ''https://'') (js ''http://'' @ rest) = js ''http://'' @ rest"
      using a by (intro remove_first_absent) (simp only: includes_after_http, simp)
    then show ?thesis using 2 by (simp only: remove_first_prefix)
  qed
qed

theorem environment_url_gate_witness:
  "message_fmt sample_platform (sample_context (js ''.deploy'')) (Str (js ''success'')) Undefined
     (Str (js ''test-ref'')) (Str (js ''false'')) (Str (js ''production''))
     (Str (js ''https://example.com'')) True =
   message_fmt sample_platform (sample_context (js ''.deploy'')) (Str (js ''success'')) Undefined
     (Str (js ''test-ref'')) (Str (js ''false'')) (Str (js ''production'')) Null False
   @ nl @ nl @ js ''> **Environment URL:** [example.com](https://example.com)''
   \<and> remove_first (js ''http://'') (remove_first (js ''https://'') (js ''https://'' @ js ''example.com''))
       = js ''example.com''"
proof -
  have "\<exists>url. Str (js ''https://example.com'') = Str url \<and> url \<noteq> [] \<and> trim url \<noteq> []"
    by (simp add: trim_def is_space_def js_def)
  moreover have "\<not> js_includes (js ''example.com'') (js ''https://'')"
    and "\<not> js_includes (js ''example.com'') (js ''http://'')"
    by (simp_all add: js_def)
  moreover have "remove_first (js ''http://'') (remove_first (js ''https://'') (js ''https://example.com''))
      = js ''example.com''"
    by (simp add: js_def)
  ultimately show ?thesis
    using environment_url_gate [of sample_platform "sample_context (js ''.deploy'')"
        "Str (js ''success'')" Undefined "Str (js ''test-ref'')" "Str (js ''false'')"
        "Str (js ''production'')" "Str (js ''https://example.com'')" True
        "js ''https://''" "js ''example.com''"]
    by (simp add: js_def)
qed

text \<open>
  Claim C10. For inputs that pass the checks, with \<^verbatim>\<open>noop\<close> not \<^verbatim>\<open>'true'\<close> and the
  status update accepted, \<^verbatim>\<open>postDeploy\<close> makes two calls: the status update, and
  the transition of the deployment to \<^verbatim>\<open>'success'\<close> when the status is
  \<^verbatim>\<open>'success'\<close> and to \<^verbatim>\<open>'failure'\<close> for every other status. For a status that is
  neither of the two, the message posted is the template with the warning sign and the
  warning that the deployment status is unknown.
\<close>

theorem unknown_status_is_failure:
  assumes "\<not> missing comment_id" and "\<not> missing status" and "\<not> missing ref"
    and "\<not> missing noop" and "noop \<noteq> Str (js ''true'')"
    and "\<not> missing deployment_id" and "\<not> missing environment"
    and "actionStatus_res p = None"
  shows "snd (postDeploy p ctx comment_id reaction_id status customMessage ref noop deployment_id
            environment environment_url environment_url_in_comment)
       = [ActionStatus (ParseInt reaction_id)
            (message_fmt p ctx status customMessage ref noop environment environment_url
               environment_url_in_comment)
            (Some (status = Str (js ''success''))),
          CreateDeploymentStatus ref
            (if status = Str (js ''success'') then js ''success'' else js ''failure'')
            deployment_id environment environment_url]
     \<and> (status \<noteq> Str (js ''success'') \<and> status \<noteq> Str (js ''failure'') \<longrightarrow>
          message_fmt p ctx status customMessage ref noop environment environment_url
            environment_url_in_comment
          = dedent p
              (if (\<exists>custom. customMessage = Str custom \<and> custom \<noteq> [])
               then [0x0A] @ js ''    ### Deployment Results '' @ [0x26A0, 0xFE0F] @ [0x0A] @ [0x0A]
                    @ js ''    Warning: deployment status is unknown, please use caution'' @ [0x0A]
                    @ js ''  '' @ [0x0A]
                    @ js ''    <details><summary>Show Results</summary>'' @ [0x0A]
                    @ js ''  '' @ [0x0A]
                    @ js ''    '' @ unescape 0x74 0x09 (unescape 0x6E 0x0A (to_string customMessage))
                    @ [0x0A]
                    @ js ''  '' @ [0x0A]
                    @ js ''    </details>'' @ [0x0A]
                    @ js ''    ''
               else [0x0A] @ js ''    ### Deployment Results '' @ [0x26A0, 0xFE0F] @ [0x0A]
                    @ js ''  '' @ [0x0A]
                    @ js ''    Warning: deployment status is unknown, please use caution'' @ [0x0A]
                    @ js ''    ''))"
proof -
  have v: "noop = Str (js ''true'') \<or> (\<not> missing deployment_id \<and> \<not> missing environment)"
    using assms(6,7) by simp
  have "snd (postDeploy p ctx comment_id reaction_id status customMessage ref noop deployment_id
            environment environment_url environment_url_in_comment)
       = [ActionStatus (ParseInt reaction_id)
            (message_fmt p ctx status customMessage ref noop environment environment_url
               environment_url_in_comment)
            (Some (status = Str (js ''success''))),
          CreateDeploymentStatus ref
            (if status = Str (js ''success'') then js ''success'' else js ''failure'')
            deployment_id environment environment_url]"
    using assms(5,8) by (simp add: postDeploy_valid [OF assms(1-4) v] split: option.split)
  moreover have "message_fmt p ctx status customMessage ref noop environment environment_url
            environment_url_in_comment
          = dedent p
              (if (\<exists>custom. customMessage = Str custom \<and> custom \<noteq> [])
               then [0x0A] @ js ''    ### Deployment Results '' @ [0x26A0, 0xFE0F] @ [0x0A] @ [0x0A]
                    @ js ''    Warning: deployment status is unknown, please use caution'' @ [0x0A]
                    @ js ''  '' @ [0x0A]
                    @ js ''    <details><summary>Show Results</summary>'' @ [0x0A]
                    @ js ''  '' @ [0x0A]
                    @ js ''    '' @ unescape 0x74 0x09 (unescape 0x6E 0x0A (to_string customMessage))
                    @ [0x0A]
                    @ js ''  '' @ [0x0A]
                    @ js ''    </details>'' @ [0x0A]
                    @ js ''    ''
               else [0x0A] @ js ''    ### Deployment Results '' @ [0x26A0, 0xFE0F] @ [0x0A]
                    @ js ''  '' @ [0x0A]
                    @ js ''    Warning: deployment status is unknown, please use caution'' @ [0x0A]
                    @ js ''    '')"
    if s: "status \<noteq> Str (js ''success'')" "status \<noteq> Str (js ''failure'')"
  proof -
    have "deployStatus status = [0x26A0, 0xFE0F]"
      using s by (simp add: deployStatus_def)
    moreover have "status_message (ctx_actor ctx) status noop ref environment
        = js ''Warning: deployment status is unknown, please use caution''"
      using s assms(5) by (simp add: status_message_def deployTypeString_def js_def)
    moreover have "environment_url_line environment_url status noop environment_url_in_comment = []"
      using s by (cases environment_url) (simp_all add: environment_url_line_def)
    ultimately show ?thesis
      by (simp only: message_fmt_template append_Nil2 js_def list.map append_Cons append_Nil)
  qed
  ultimately show ?thesis by blast
qed

theorem unknown_status_is_failure_witness:
  "snd (postDeploy sample_platform (sample_context (js ''.deploy'')) (Str (js ''1''))
          (Str (js ''123'')) (Str (js ''cancelled'')) Undefined (Str (js ''test-ref''))
          (Str (js ''false'')) (Str (js ''456'')) (Str (js ''production'')) Null False)
     = [ActionStatus (ParseInt (Str (js ''123'')))
          ([0x0A] @ js ''    ### Deployment Results '' @ [0x26A0, 0xFE0F] @ [0x0A]
             @ js ''  '' @ [0x0A]
             @ js ''    Warning: deployment status is unknown, please use caution'' @ [0x0A]
             @ js ''    '')
          (Some False),
        CreateDeploymentStatus (Str (js ''test-ref'')) (js ''failure'') (Str (js ''456''))
          (Str (js ''production'')) Null]"
proof -
  have v: "\<not> missing (Str (js ''1''))" "\<not> missing (Str (js ''cancelled''))"
    "\<not> missing (Str (js ''test-ref''))" "\<not> missing (Str (js ''false''))"
    "Str (js ''false'') \<noteq> Str (js ''true'')"
    "\<not> missing (Str (js ''456''))" "\<not> missing (Str (js ''production''))"
    "actionStatus_res sample_platform = None"
    by (simp_all add: js_def sample_platform_def)
  have n: "Str (js ''cancelled'') \<noteq> Str (js ''success'')"
    "Str (js ''cancelled'') \<noteq> Str (js ''failure'')"
    by (simp_all add: js_def)
  have d: "dedent sample_platform = (\<lambda>s. s)" by (simp add: sample_platform_def)
  from unknown_status_is_failure [OF v, of "sample_context (js ''.deploy'')"
      "Str (js ''123'')" Undefined Null False]
  show ?thesis
    unfolding d using n by simp
qed

section \<open>The environment URL\<close>

text \<open>
  Claim C7 fails on the code. A pair with no bar has no url: for the environment
  \<open>staging\<close> and the pairs \<open>production|https://example.com,staging\<close> the url read is
  \<^verbatim>\<open>undefined\<close>, and \<^verbatim>\<open>findEnvironmentUrl\<close> throws a \<^verbatim>\<open>TypeError\<close> instead of going on
  with a warning; \<^verbatim>\<open>run\<close> catches it and ends without a result.
\<close>

theorem missing_url_throws:
  "findEnvironmentUrl (js ''staging'')
     (Some (js ''production|https://example.com,staging'')) empty_world
   = (Inl TypeError, empty_world)
   \<and> fst (run sample_platform
        (sample_inputs\<lparr>in_environment_urls := js ''production|https://example.com,staging''\<rparr>)
        (sample_context (js ''.deploy to staging'')) empty_world) = None"
  by (simp add: run_defs sample_defs Let_def world_ops trim_def is_space_def js_def)

text \<open>When every pair has a bar, the loop returns.\<close>

lemma find_url_loop_returns:
  assumes "\<forall>pair\<in>set pairs. 0x7C \<in> set (trim pair)"
  shows "\<exists>url. fst (find_url_loop environment pairs w) = Inr url"
  using assms
proof (induction pairs)
  case Nil
  then show ?case by simp
next
  case (Cons pair pairs)
  then obtain name url others where "js_split 0x7C (trim pair) = name # url # others"
    using js_split_bar [of "0x7C" "trim pair"] by auto
  with Cons show ?case by simp
qed

section \<open>The first phase\<close>

text \<open>
  Claim C5. When the run reaches the two trigger checks (the token and the environment are
  supplied, the client is created, merge deploy mode is off, the event has a comment and an
  issue, and the context is valid) and the body activates both the deploy trigger and the
  help trigger, \<^verbatim>\<open>run\<close> returns \<^verbatim>\<open>'failure'\<close>, with the output \<^verbatim>\<open>triggered\<close> set to
  \<^verbatim>\<open>'false'\<close>, the state \<^verbatim>\<open>bypass\<close> set to \<^verbatim>\<open>'true'\<close> and the run marked as
  failed; the only calls made are the context check and the two trigger checks, so no
  reaction has been added and no comment posted.
\<close>

theorem multiple_commands_fatal:
  assumes "in_github_token inp = Inr token" and "in_environment inp = Inr environment"
    and "getOctokit_res p = None" and "in_merge_deploy_mode inp \<noteq> js ''true''"
    and "ctx_comment ctx = Some cmt" and "contextCheck_res p = Inr True"
    and "ctx_issue_number ctx = Some issue_number"
    and "triggerCheck_res p (in_prefix_only inp = js ''true'') (trim (c_body cmt))
           (in_trigger inp) = Inr True"
    and "triggerCheck_res p (in_prefix_only inp = js ''true'') (trim (c_body cmt))
           (in_help_trigger inp) = Inr True"
  shows "fst (run p inp ctx w) = Some (js ''failure'')
     \<and> outputs (snd (run p inp ctx w)) ''triggered'' = Some (js ''false'')
     \<and> saved (snd (run p inp ctx w)) ''bypass'' = Some (js ''true'')
     \<and> failed (snd (run p inp ctx w))
         = Some (Error (js ''IssueOps message contains multiple commands, only one is allowed''))
     \<and> calls (snd (run p inp ctx w))
         = calls w @ [ContextCheck,
             TriggerCheck (in_prefix_only inp = js ''true'') (trim (c_body cmt)) (in_trigger inp),
             TriggerCheck (in_prefix_only inp = js ''true'') (trim (c_body cmt))
               (in_help_trigger inp)]"
  using assms
  by (simp add: run_def run_try_def run_classify_def Let_def world_ops)

theorem multiple_commands_fatal_witness:
  "fst (run sample_platform (sample_inputs\<lparr>in_prefix_only := js ''false''\<rparr>)
          (sample_context (js ''.deploy .help'')) empty_world) = Some (js ''failure'')
   \<and> outputs (snd (run sample_platform (sample_inputs\<lparr>in_prefix_only := js ''false''\<rparr>)
          (sample_context (js ''.deploy .help'')) empty_world)) ''triggered'' = Some (js ''false'')
   \<and> saved (snd (run sample_platform (sample_inputs\<lparr>in_prefix_only := js ''false''\<rparr>)
          (sample_context (js ''.deploy .help'')) empty_world)) ''bypass'' = Some (js ''true'')
   \<and> calls (snd (run sample_platform (sample_inputs\<lparr>in_prefix_only := js ''false''\<rparr>)
          (sample_context (js ''.deploy .help'')) empty_world))
       = [ContextCheck, TriggerCheck False (js ''.deploy .help'') (js ''.deploy''),
          TriggerCheck False (js ''.deploy .help'') (js ''.help'')]"
proof -
  let ?inp = "sample_inputs\<lparr>in_prefix_only := js ''false''\<rparr>"
  let ?cmt = "\<lparr>c_body = js ''.deploy .help'', c_id = js ''1'', c_user_login = js ''monalisa''\<rparr>"
  have t: "trim (c_body ?cmt) = js ''.deploy .help''"
    by (simp add: trim_def is_space_def js_def)
  have p: "(in_prefix_only ?inp = js ''true'') = False"
    by (simp add: sample_inputs_def js_def)
  have "in_github_token ?inp = Inr (js ''faketoken'')"
    and "in_environment ?inp = Inr (js ''production'')"
    and "getOctokit_res sample_platform = None"
    and "in_merge_deploy_mode ?inp \<noteq> js ''true''"
    and "ctx_comment (sample_context (js ''.deploy .help'')) = Some ?cmt"
    and "contextCheck_res sample_platform = Inr True"
    and "ctx_issue_number (sample_context (js ''.deploy .help'')) = Some (js ''7'')"
    and "triggerCheck_res sample_platform (in_prefix_only ?inp = js ''true'') (trim (c_body ?cmt))
           (in_trigger ?inp) = Inr True"
    and "triggerCheck_res sample_platform (in_prefix_only ?inp = js ''true'') (trim (c_body ?cmt))
           (in_help_trigger ?inp) = Inr True"
    unfolding t p
    by (simp_all add: sample_inputs_def sample_platform_def sample_context_def js_def)
  from multiple_commands_fatal [OF this, of empty_world]
  show ?thesis
    unfolding t p by (simp add: sample_inputs_def empty_world_def)
qed

subsection \<open>No deployment in no-op mode\<close>

lemma calls_find_url_loop: "calls (snd (find_url_loop environment pairs w)) = calls w"
  by (induction pairs) (simp_all add: world_ops split: list.split)

lemma calls_findEnvironmentUrl:
  "calls (snd (findEnvironmentUrl environment environment_urls w)) = calls w"
  by (simp add: findEnvironmentUrl_def calls_find_url_loop split: option.split)

lemma calls_environmentTargets:
  "\<exists>cs. calls (snd (environmentTargets p inp environment body trigger alt_trigger stable_branch
              reactionId environment_urls w)) = calls w @ cs
        \<and> (\<forall>c\<in>set cs. \<not> is_deployment_call c \<and> \<not> is_prechecks_call c)"
proof (cases "onDeploymentChecks (map trim (js_split 0x2C (in_environment_targets inp))) body
                trigger alt_trigger stable_branch environment")
  case None
  then show ?thesis
    by (simp add: environmentTargets_def Let_def world_ops split: option.split)
next
  case (Some environmentDetected)
  obtain r w1 where f: "findEnvironmentUrl environmentDetected environment_urls w = (r, w1)"
    by (cases "findEnvironmentUrl environmentDetected environment_urls w")
  then have "calls w1 = calls w"
    using calls_findEnvironmentUrl [of environmentDetected environment_urls w] by simp
  with Some f show ?thesis
    by (cases r) (simp_all add: environmentTargets_def Let_def)
qed

lemma calls_run_help:
  "\<exists>cs. calls (snd (run_help p reaction_id w)) = calls w @ cs
        \<and> (\<forall>c\<in>set cs. \<not> is_deployment_call c \<and> \<not> is_prechecks_call c)"
  by (simp add: run_help_def Let_def world_ops split: sum.split option.split permission.split)

lemma noop_run_prechecks:
  assumes "prechecks_res p = Inr pr" and "pc_noopMode pr"
  shows "\<exists>cs. calls (snd (run_prechecks p inp ctx body issue_number reaction_id trigger
                 environment environmentUrl w)) = calls w @ cs
        \<and> (\<forall>c\<in>set cs. \<not> is_deployment_call c)"
    and "pc_status pr \<Longrightarrow> createComment_res p = None \<Longrightarrow>
         fst (run_prechecks p inp ctx body issue_number reaction_id trigger
                 environment environmentUrl w) = Inr (js ''success - noop'')"
  using assms
  by (simp_all add: run_prechecks_def Let_def world_ops split: option.split)

lemma no_prechecks_shape:
  assumes "calls w' = calls w @ cs"
    and "\<forall>c\<in>set cs. \<not> is_deployment_call c \<and> \<not> is_prechecks_call c"
  shows "\<exists>cs. calls w' = calls w @ cs
        \<and> (\<forall>c\<in>set cs. \<not> is_deployment_call c)
        \<and> (S \<longrightarrow> C \<longrightarrow> (\<exists>c\<in>set cs. is_prechecks_call c) \<longrightarrow> R)"
proof (rule exI [of _ cs], intro conjI impI)
  show "calls w' = calls w @ cs" by (rule assms(1))
  show "\<forall>c\<in>set cs. \<not> is_deployment_call c" using assms(2) by blast
  show R if "\<exists>c\<in>set cs. is_prechecks_call c" using that assms(2) by blast
qed

lemma noop_run_triggered:
  assumes "prechecks_res p = Inr pr" and "pc_noopMode pr"
  shows "\<exists>cs. calls (snd (run_triggered p inp ctx cmt body issue_number environment isHelp w))
               = calls w @ cs
        \<and> (\<forall>c\<in>set cs. \<not> is_deployment_call c)
        \<and> (pc_status pr \<longrightarrow> createComment_res p = None \<longrightarrow> (\<exists>c\<in>set cs. is_prechecks_call c)
             \<longrightarrow> fst (run_triggered p inp ctx cmt body issue_number environment isHelp w)
                   = Inr (js ''success - noop''))"
proof (cases "reactEmote_res p")
  case (Inl e)
  then show ?thesis by (simp add: run_triggered_def Let_def world_ops)
next
  case (Inr reaction_id)
  let ?w2 = "log_call (ReactEmote (in_reaction inp)) (setOutput ''triggered'' (js ''true'') w)"
  let ?w3 = "setOutput ''actor_handle'' (c_user_login cmt)
               (saveState ''reaction_id'' reaction_id
                 (setOutput ''initial_reaction_id'' reaction_id
                   (saveState ''comment_id'' (c_id cmt)
                     (setOutput ''comment_id'' (c_id cmt) ?w2))))"
  have w3: "calls ?w3 = calls w @ [ReactEmote (in_reaction inp)]"
    by (simp add: world_ops)
  show ?thesis
  proof (cases isHelp)
    case True
    obtain cs where "calls (snd (run_help p reaction_id ?w3)) = calls ?w3 @ cs"
      and "\<forall>c\<in>set cs. \<not> is_deployment_call c \<and> \<not> is_prechecks_call c"
      using calls_run_help by blast
    then have "calls (snd (run_help p reaction_id ?w3))
                 = calls w @ (ReactEmote (in_reaction inp) # cs)"
      and "\<forall>c\<in>set (ReactEmote (in_reaction inp) # cs).
              \<not> is_deployment_call c \<and> \<not> is_prechecks_call c"
      using w3 by simp_all
    then have "\<exists>cs. calls (snd (run_help p reaction_id ?w3)) = calls w @ cs
        \<and> (\<forall>c\<in>set cs. \<not> is_deployment_call c)
        \<and> (pc_status pr \<longrightarrow> createComment_res p = None \<longrightarrow> (\<exists>c\<in>set cs. is_prechecks_call c)
             \<longrightarrow> fst (run_help p reaction_id ?w3) = Inr (js ''success - noop''))"
      by (rule no_prechecks_shape)
    moreover have "run_triggered p inp ctx cmt body issue_number environment isHelp w
                     = run_help p reaction_id ?w3"
      using Inr True by (simp add: run_triggered_def Let_def)
    ultimately show ?thesis by (simp only:)
  next
    case False
    let ?et = "environmentTargets p inp environment body (in_trigger inp) (in_noop_trigger inp)
                 (in_stable_branch inp) reaction_id (Some (in_environment_urls inp)) ?w3"
    obtain r w4 where et: "?et = (r, w4)" by (cases ?et)
    obtain cs1 where "calls (snd ?et) = calls ?w3 @ cs1"
      and cs1: "\<forall>c\<in>set cs1. \<not> is_deployment_call c \<and> \<not> is_prechecks_call c"
      using calls_environmentTargets by blast
    then have w4: "calls w4 = calls w @ (ReactEmote (in_reaction inp) # cs1)"
      using et w3 by simp
    have early: ?thesis
      if "run_triggered p inp ctx cmt body issue_number environment isHelp w = (x, w4)" for x
    proof -
      have "calls (snd (run_triggered p inp ctx cmt body issue_number environment isHelp w))
              = calls w @ (ReactEmote (in_reaction inp) # cs1)"
        and "\<forall>c\<in>set (ReactEmote (in_reaction inp) # cs1).
                  \<not> is_deployment_call c \<and> \<not> is_prechecks_call c"
        using that w4 cs1 by simp_all
      then show ?thesis by (rule no_prechecks_shape)
    qed
    show ?thesis
    proof (cases r)
      case (Inl e)
      then have "run_triggered p inp ctx cmt body issue_number environment isHelp w = (Inl e, w4)"
        using Inr False et by (simp add: run_triggered_def Let_def)
      then show ?thesis by (rule early)
    next
      case r: (Inr found)
      obtain detected environmentUrl where found: "found = (detected, environmentUrl)"
        by (cases found)
      show ?thesis
      proof (cases "detected = None \<or> detected = Some []")
        case True
        then have "run_triggered p inp ctx cmt body issue_number environment isHelp w
                     = (Inr (js ''safe-exit''), w4)"
          using Inr False et r found by (auto simp add: run_triggered_def Let_def)
        then show ?thesis by (rule early)
      next
        case no: False
        then obtain environment' where d: "detected = Some environment'" and "environment' \<noteq> []"
          by (cases detected) auto
        let ?rp = "run_prechecks p inp ctx body issue_number reaction_id (in_trigger inp)
                     environment' environmentUrl w4"
        have rt: "run_triggered p inp ctx cmt body issue_number environment isHelp w = ?rp"
          using Inr False et r found d \<open>environment' \<noteq> []\<close>
          by (simp add: run_triggered_def Let_def)
        obtain cs2 where "calls (snd ?rp) = calls w4 @ cs2"
          and cs2: "\<forall>c\<in>set cs2. \<not> is_deployment_call c"
          using noop_run_prechecks(1) [OF assms] by blast
        then have c: "calls (snd ?rp) = calls w @ (ReactEmote (in_reaction inp) # cs1 @ cs2)"
          using w4 by simp
        have res: "fst ?rp = Inr (js ''success - noop'')"
          if "pc_status pr" and "createComment_res p = None"
          using that by (rule noop_run_prechecks(2) [OF assms])
        show ?thesis
          unfolding rt
        proof (rule exI [of _ "ReactEmote (in_reaction inp) # cs1 @ cs2"], intro conjI impI)
          show "calls (snd ?rp) = calls w @ (ReactEmote (in_reaction inp) # cs1 @ cs2)"
            by (rule c)
          show "\<forall>c\<in>set (ReactEmote (in_reaction inp) # cs1 @ cs2). \<not> is_deployment_call c"
            using cs1 cs2 by auto
          show "fst ?rp = Inr (js ''success - noop'')"
            if "pc_status pr" and "createComment_res p = None"
            using that by (rule res)
        qed
      qed
    qed
  qed
qed

lemma shape_compose:
  assumes "calls w1 = calls w @ pre"
    and "\<forall>c\<in>set pre. \<not> is_deployment_call c \<and> \<not> is_prechecks_call c"
    and "\<exists>cs. calls w2 = calls w1 @ cs
        \<and> (\<forall>c\<in>set cs. \<not> is_deployment_call c)
        \<and> (S \<longrightarrow> C \<longrightarrow> (\<exists>c\<in>set cs. is_prechecks_call c) \<longrightarrow> R)"
  shows "\<exists>cs. calls w2 = calls w @ cs
        \<and> (\<forall>c\<in>set cs. \<not> is_deployment_call c)
        \<and> (S \<longrightarrow> C \<longrightarrow> (\<exists>c\<in>set cs. is_prechecks_call c) \<longrightarrow> R)"
proof -
  from assms(3) obtain cs where cs: "calls w2 = calls w1 @ cs"
    "\<forall>c\<in>set cs. \<not> is_deployment_call c"
    "S \<longrightarrow> C \<longrightarrow> (\<exists>c\<in>set cs. is_prechecks_call c) \<longrightarrow> R"
    by blast
  show ?thesis
  proof (rule exI [of _ "pre @ cs"], intro conjI impI)
    show "calls w2 = calls w @ pre @ cs" using cs(1) assms(1) by simp
    show "\<forall>c\<in>set (pre @ cs). \<not> is_deployment_call c" using cs(2) assms(2) by auto
    show R if S and C and "\<exists>c\<in>set (pre @ cs). is_prechecks_call c"
    proof -
      from that(3) assms(2) have "\<exists>c\<in>set cs. is_prechecks_call c" by auto
      with cs(3) that(1,2) show R by blast
    qed
  qed
qed

lemma noop_run_classify:
  assumes "prechecks_res p = Inr pr" and "pc_noopMode pr"
  shows "\<exists>cs. calls (snd (run_classify p inp ctx environment w)) = calls w @ cs
        \<and> (\<forall>c\<in>set cs. \<not> is_deployment_call c)
        \<and> (pc_status pr \<longrightarrow> createComment_res p = None \<longrightarrow> (\<exists>c\<in>set cs. is_prechecks_call c)
             \<longrightarrow> fst (run_classify p inp ctx environment w) = Inr (js ''success - noop''))"
proof (cases "ctx_comment ctx")
  case None
  then show ?thesis by (simp add: run_classify_def)
next
  case (Some cmt)
  let ?body = "trim (c_body cmt)"
  let ?prefixOnly = "in_prefix_only inp = js ''true''"
  show ?thesis
  proof (cases "contextCheck_res p")
    case (Inl e)
    with Some show ?thesis by (simp add: run_classify_def Let_def world_ops)
  next
    case valid: (Inr valid)
    show ?thesis
    proof (cases "valid \<and> ctx_issue_number ctx \<noteq> None")
      case False
      with Some valid show ?thesis
        by (cases valid; cases "ctx_issue_number ctx")
           (simp_all add: run_classify_def Let_def world_ops)
    next
      case True
      then obtain issue_number where issue: "ctx_issue_number ctx = Some issue_number" and v: valid
        by auto
      show ?thesis
      proof (cases "triggerCheck_res p ?prefixOnly ?body (in_trigger inp)")
        case (Inl e)
        with Some valid v issue show ?thesis
          by (simp add: run_classify_def Let_def world_ops)
      next
        case deploy: (Inr isDeploy)
        show ?thesis
        proof (cases "triggerCheck_res p ?prefixOnly ?body (in_help_trigger inp)")
          case (Inl e)
          with Some valid v issue deploy show ?thesis
            by (simp add: run_classify_def Let_def world_ops)
        next
          case hlp: (Inr isHelp)
          show ?thesis
          proof (cases "isDeploy = isHelp")
            case True
            with Some valid v issue deploy hlp show ?thesis
              by (cases isHelp) (simp_all add: run_classify_def Let_def world_ops)
          next
            case False
            let ?w4 = "setOutput ''type'' (if isDeploy then js ''deploy'' else js ''help'')
                         (log_call (TriggerCheck ?prefixOnly ?body (in_help_trigger inp))
                           (log_call (TriggerCheck ?prefixOnly ?body (in_trigger inp))
                             (log_call ContextCheck w)))"
            let ?pre = "[ContextCheck, TriggerCheck ?prefixOnly ?body (in_trigger inp),
                         TriggerCheck ?prefixOnly ?body (in_help_trigger inp)]"
            have rc: "run_classify p inp ctx environment w
                        = run_triggered p inp ctx cmt ?body issue_number environment isHelp ?w4"
              using Some valid v issue deploy hlp False
              by (cases isHelp) (simp_all add: run_classify_def Let_def)
            have "calls ?w4 = calls w @ ?pre" by (simp add: world_ops)
            moreover have "\<forall>c\<in>set ?pre. \<not> is_deployment_call c \<and> \<not> is_prechecks_call c"
              by simp
            ultimately show ?thesis
              unfolding rc using noop_run_triggered [OF assms] by (rule shape_compose)
          qed
        qed
      qed
    qed
  qed
qed

lemma noop_run_try:
  assumes "prechecks_res p = Inr pr" and "pc_noopMode pr"
  shows "\<exists>cs. calls (snd (run_try p inp ctx w)) = calls w @ cs
        \<and> (\<forall>c\<in>set cs. \<not> is_deployment_call c)
        \<and> (pc_status pr \<longrightarrow> createComment_res p = None \<longrightarrow> (\<exists>c\<in>set cs. is_prechecks_call c)
             \<longrightarrow> fst (run_try p inp ctx w) = Inr (js ''success - noop''))"
proof (cases "\<exists>token environment. in_github_token inp = Inr token
          \<and> in_environment inp = Inr environment \<and> getOctokit_res p = None
          \<and> in_merge_deploy_mode inp \<noteq> js ''true''")
  case False
  then show ?thesis
    by (cases "in_github_token inp"; cases "in_environment inp"; cases "getOctokit_res p";
        cases "in_merge_deploy_mode inp = js ''true''")
       (simp_all add: run_try_def Let_def world_ops)
next
  case True
  then obtain token environment where t: "in_github_token inp = Inr token"
    "in_environment inp = Inr environment" "getOctokit_res p = None"
    "in_merge_deploy_mode inp \<noteq> js ''true''"
    by blast
  let ?w1 = "saveState ''actionsToken'' token (saveState ''isPost'' (js ''true'') w)"
  have rt: "run_try p inp ctx w = run_classify p inp ctx environment ?w1"
    using t by (simp add: run_try_def Let_def)
  have "calls ?w1 = calls w @ []" by (simp add: world_ops)
  moreover have "\<forall>c\<in>set []. \<not> is_deployment_call c \<and> \<not> is_prechecks_call c" by simp
  ultimately show ?thesis
    unfolding rt using noop_run_classify [OF assms] by (rule shape_compose)
qed

lemma noop_run:
  assumes "prechecks_res p = Inr pr" and "pc_noopMode pr"
  shows "\<exists>cs. calls (snd (run p inp ctx w)) = calls w @ cs
        \<and> (\<forall>c\<in>set cs. \<not> is_deployment_call c)
        \<and> (pc_status pr \<longrightarrow> createComment_res p = None \<longrightarrow> (\<exists>c\<in>set cs. is_prechecks_call c)
             \<longrightarrow> fst (run p inp ctx w) = Some (js ''success - noop''))"
proof -
  obtain r w1 where rt: "run_try p inp ctx w = (r, w1)" by (cases "run_try p inp ctx w")
  from noop_run_try [OF assms, of inp ctx w] rt
  obtain cs where cs: "calls w1 = calls w @ cs" "\<forall>c\<in>set cs. \<not> is_deployment_call c"
    "pc_status pr \<longrightarrow> createComment_res p = None \<longrightarrow> (\<exists>c\<in>set cs. is_prechecks_call c)
       \<longrightarrow> r = Inr (js ''success - noop'')"
    by auto
  show ?thesis
  proof (rule exI [of _ cs], intro conjI impI)
    show "calls (snd (run p inp ctx w)) = calls w @ cs"
      using rt cs(1) by (cases r) (simp_all add: run_def world_ops)
    show "\<forall>c\<in>set cs. \<not> is_deployment_call c" by (rule cs(2))
    show "fst (run p inp ctx w) = Some (js ''success - noop'')"
      if "pc_status pr" and "createComment_res p = None" and "\<exists>c\<in>set cs. is_prechecks_call c"
      using that cs(3) rt by (simp add: run_def)
  qed
qed

text \<open>
  Claim C6. When \<^verbatim>\<open>prechecks\<close> reports the no-op mode, no call of \<^verbatim>\<open>run\<close> creates a
  deployment or sets a deployment status, on any path; and when the run has reached
  \<^verbatim>\<open>prechecks\<close>, the prechecks pass and the comment is posted, \<^verbatim>\<open>run\<close> returns
  \<^verbatim>\<open>'success - noop'\<close>. \<^verbatim>\<open>postDeploy\<close> with \<^verbatim>\<open>noop\<close> equal to \<^verbatim>\<open>'true'\<close> never
  sets a deployment status, and for inputs that pass its checks it makes the status update
  alone and returns \<^verbatim>\<open>'success - noop'\<close>.
\<close>

theorem noop_creates_no_deployment:
  "(prechecks_res p = Inr pr \<and> pc_noopMode pr \<longrightarrow>
      (\<exists>cs. calls (snd (run p inp ctx w)) = calls w @ cs
          \<and> (\<forall>c\<in>set cs. \<not> is_deployment_call c)
          \<and> (pc_status pr \<longrightarrow> createComment_res p = None
                \<longrightarrow> (\<exists>c\<in>set cs. is_prechecks_call c)
                \<longrightarrow> fst (run p inp ctx w) = Some (js ''success - noop''))))
   \<and> (\<forall>c\<in>set (snd (postDeploy p ctx comment_id reaction_id status customMessage ref
                      (Str (js ''true'')) deployment_id environment environment_url
                      environment_url_in_comment)). \<not> is_deployment_call c)
   \<and> (\<not> missing comment_id \<and> \<not> missing status \<and> \<not> missing ref \<and> actionStatus_res p = None
        \<longrightarrow> postDeploy p ctx comment_id reaction_id status customMessage ref
              (Str (js ''true'')) deployment_id environment environment_url
              environment_url_in_comment
            = (Inr (js ''success - noop''),
               [ActionStatus (ParseInt reaction_id)
                  (message_fmt p ctx status customMessage ref (Str (js ''true'')) environment
                     environment_url environment_url_in_comment)
                  (Some (status = Str (js ''success'')))]))"
proof (intro conjI impI)
  assume "prechecks_res p = Inr pr \<and> pc_noopMode pr"
  then have "prechecks_res p = Inr pr" and "pc_noopMode pr" by simp_all
  then show "\<exists>cs. calls (snd (run p inp ctx w)) = calls w @ cs
          \<and> (\<forall>c\<in>set cs. \<not> is_deployment_call c)
          \<and> (pc_status pr \<longrightarrow> createComment_res p = None
                \<longrightarrow> (\<exists>c\<in>set cs. is_prechecks_call c)
                \<longrightarrow> fst (run p inp ctx w) = Some (js ''success - noop''))"
    by (rule noop_run)
next
  show "\<forall>c\<in>set (snd (postDeploy p ctx comment_id reaction_id status customMessage ref
                      (Str (js ''true'')) deployment_id environment environment_url
                      environment_url_in_comment)). \<not> is_deployment_call c"
    by (simp add: postDeploy_def Let_def split: option.split)
next
  assume "\<not> missing comment_id \<and> \<not> missing status \<and> \<not> missing ref \<and> actionStatus_res p = None"
  moreover have "\<not> missing (Str (js ''true''))" by (simp add: js_def)
  ultimately show "postDeploy p ctx comment_id reaction_id status customMessage ref
              (Str (js ''true'')) deployment_id environment environment_url
              environment_url_in_comment
            = (Inr (js ''success - noop''),
               [ActionStatus (ParseInt reaction_id)
                  (message_fmt p ctx status customMessage ref (Str (js ''true'')) environment
                     environment_url environment_url_in_comment)
                  (Some (status = Str (js ''success'')))])"
    by (simp add: postDeploy_def Let_def)
qed

theorem noop_creates_no_deployment_witness:
  "fst (run sample_noop_platform sample_inputs (sample_context (js ''.deploy noop'')) empty_world)
     = Some (js ''success - noop'')
   \<and> filter is_deployment_call (calls (snd (run sample_noop_platform sample_inputs
                 (sample_context (js ''.deploy noop'')) empty_world))) = []
   \<and> postDeploy sample_noop_platform (sample_context (js ''.deploy noop'')) (Str (js ''1''))
        (Str (js ''123'')) (Str (js ''success'')) Undefined (Str (js ''test-ref''))
        (Str (js ''true'')) Undefined Undefined Null False
      = (Inr (js ''success - noop''),
         [ActionStatus (ParseInt (Str (js ''123'')))
            (message_fmt sample_noop_platform (sample_context (js ''.deploy noop''))
               (Str (js ''success'')) Undefined (Str (js ''test-ref'')) (Str (js ''true''))
               Undefined Null False)
            (Some True)])"
proof -
  let ?pr = "\<lparr>pc_status = True, pc_message = js ''ok'', pc_ref = js ''test-ref'',
              pc_sha = js ''abc123'', pc_noopMode = True\<rparr>"
  let ?run = "run sample_noop_platform sample_inputs (sample_context (js ''.deploy noop''))
                empty_world"
  have h: "prechecks_res sample_noop_platform = Inr ?pr \<and> pc_noopMode ?pr"
    "pc_status ?pr" "createComment_res sample_noop_platform = None"
    "\<not> missing (Str (js ''1'')) \<and> \<not> missing (Str (js ''success''))
       \<and> \<not> missing (Str (js ''test-ref'')) \<and> actionStatus_res sample_noop_platform = None"
    by (simp_all add: sample_defs js_def)
  have reached: "\<exists>c\<in>set (calls (snd ?run)). is_prechecks_call c"
    by (simp add: run_defs sample_defs Let_def world_ops trim_def is_space_def js_def)
  have e: "calls empty_world = []" by (simp add: empty_world_def)
  note t = noop_creates_no_deployment [of sample_noop_platform ?pr sample_inputs
      "sample_context (js ''.deploy noop'')" empty_world "Str (js ''1'')" "Str (js ''123'')"
      "Str (js ''success'')" Undefined "Str (js ''test-ref'')" Undefined Undefined Null False]
  from t [THEN conjunct1] h(1)
  have "\<exists>cs. calls (snd ?run) = calls empty_world @ cs
          \<and> (\<forall>c\<in>set cs. \<not> is_deployment_call c)
          \<and> (pc_status ?pr \<longrightarrow> createComment_res sample_noop_platform = None
                \<longrightarrow> (\<exists>c\<in>set cs. is_prechecks_call c)
                \<longrightarrow> fst ?run = Some (js ''success - noop''))"
    by (rule mp)
  then obtain cs where cs: "calls (snd ?run) = calls empty_world @ cs"
    "\<forall>c\<in>set cs. \<not> is_deployment_call c"
    "pc_status ?pr \<longrightarrow> createComment_res sample_noop_platform = None
       \<longrightarrow> (\<exists>c\<in>set cs. is_prechecks_call c) \<longrightarrow> fst ?run = Some (js ''success - noop'')"
    by (elim exE conjE)
  from cs(1) e have c: "cs = calls (snd ?run)" by simp
  from cs(3) h(2,3) reached c have "fst ?run = Some (js ''success - noop'')" by simp
  moreover from cs(2) c have "filter is_deployment_call (calls (snd ?run)) = []"
    by (simp add: filter_empty_conv)
  moreover from t [THEN conjunct2, THEN conjunct2] h(4) have "postDeploy sample_noop_platform (sample_context (js ''.deploy noop''))
        (Str (js ''1'')) (Str (js ''123'')) (Str (js ''success'')) Undefined (Str (js ''test-ref''))
        (Str (js ''true'')) Undefined Undefined Null False
      = (Inr (js ''success - noop''),
         [ActionStatus (ParseInt (Str (js ''123'')))
            (message_fmt sample_noop_platform (sample_context (js ''.deploy noop''))
               (Str (js ''success'')) Undefined (Str (js ''test-ref'')) (Str (js ''true''))
               Undefined Null False)
            (Some True)])"
    by simp
  ultimately show ?thesis by blast
qed

subsection \<open>The bypass state\<close>

text \<open>
  Claim C9 fails on the code. \<^verbatim>\<open>run\<close> tests the resolved environment with
  \<^verbatim>\<open>!environment\<close>, which holds for the empty string too, while \<^verbatim>\<open>environmentTargets\<close>
  saves \<^verbatim>\<open>bypass\<close> only when the environment is \<^verbatim>\<open>false\<close>. With the targets
  \<open>,production\<close> the body \<open>.deploy\<close> resolves to the empty target: \<^verbatim>\<open>run\<close> returns
  \<^verbatim>\<open>'safe-exit'\<close>, \<^verbatim>\<open>isPost\<close> is saved and \<^verbatim>\<open>bypass\<close> is not.
\<close>

theorem empty_environment_exits_without_bypass:
  "fst (run sample_platform (sample_inputs\<lparr>in_environment_targets := js '',production''\<rparr>)
          (sample_context (js ''.deploy'')) empty_world) = Some (js ''safe-exit'')
   \<and> saved (snd (run sample_platform (sample_inputs\<lparr>in_environment_targets := js '',production''\<rparr>)
          (sample_context (js ''.deploy'')) empty_world)) ''bypass'' = None
   \<and> saved (snd (run sample_platform (sample_inputs\<lparr>in_environment_targets := js '',production''\<rparr>)
          (sample_context (js ''.deploy'')) empty_world)) ''isPost'' = Some (js ''true'')"
  by (simp add: run_def run_try_def run_classify_def run_triggered_def environmentTargets_def
        findEnvironmentUrl_def target_checks_def Let_def world_ops sample_inputs_def
        sample_platform_def sample_context_def empty_world_def trim_def is_space_def js_def)

lemma early_exit_simps:
  "\<not> early_exit (Inl e)" "early_exit (Inr (js ''safe-exit''))" "early_exit (Inr (js ''failure''))"
  "\<not> early_exit (Inr (js ''success''))" "\<not> early_exit (Inr (js ''success - noop''))"
  "\<not> early_exit (Inr (js ''success - merge deploy mode''))"
  by (simp_all add: early_exit_def js_def)

lemma bypass_run_in_progress:
  "early_exit (fst (run_in_progress p environment environmentUrl precheckResults createDeploy w))
   \<longrightarrow> saved (snd (run_in_progress p environment environmentUrl precheckResults createDeploy w))
         ''bypass'' = Some (js ''true'')"
  by (simp add: run_in_progress_def Let_def world_ops early_exit_simps split: option.split)

lemma bypass_run_deployment:
  "early_exit (fst (run_deployment p inp owner repo reaction_id environment environmentUrl
                      precheckResults w))
   \<longrightarrow> saved (snd (run_deployment p inp owner repo reaction_id environment environmentUrl
                     precheckResults w)) ''bypass'' = Some (js ''true'')"
  by (simp add: run_deployment_def Let_def world_ops early_exit_simps bypass_run_in_progress
        split: option.split sum.split)

lemma bypass_run_prechecks:
  "early_exit (fst (run_prechecks p inp ctx body issue_number reaction_id trigger environment
                      environmentUrl w))
   \<longrightarrow> saved (snd (run_prechecks p inp ctx body issue_number reaction_id trigger environment
                     environmentUrl w)) ''bypass'' = Some (js ''true'')"
  by (simp add: run_prechecks_def Let_def world_ops early_exit_simps bypass_run_deployment
        split: option.split sum.split)

lemma bypass_run_help:
  "early_exit (fst (run_help p reaction_id w))
   \<longrightarrow> saved (snd (run_help p reaction_id w)) ''bypass'' = Some (js ''true'')"
  by (simp add: run_help_def Let_def world_ops early_exit_simps
        split: option.split sum.split permission.split)

lemma environmentTargets_result:
  assumes "environmentTargets p inp environment body trigger alt_trigger stable_branch reactionId
             environment_urls w = (Inr (detected, url), w')"
  shows "detected = onDeploymentChecks (map trim (js_split 0x2C (in_environment_targets inp)))
                      body trigger alt_trigger stable_branch environment"
    and "detected = None \<Longrightarrow> saved w' ''bypass'' = Some (js ''true'')"
proof -
  let ?d = "onDeploymentChecks (map trim (js_split 0x2C (in_environment_targets inp)))
              body trigger alt_trigger stable_branch environment"
  have "detected = ?d \<and> (detected = None \<longrightarrow> saved w' ''bypass'' = Some (js ''true''))"
  proof (cases ?d)
    case None
    with assms show ?thesis
      by (cases "actionStatus_res p") (auto simp add: environmentTargets_def Let_def world_ops)
  next
    case (Some environmentDetected)
    obtain r w1 where f: "findEnvironmentUrl environmentDetected environment_urls w = (r, w1)"
      by (cases "findEnvironmentUrl environmentDetected environment_urls w")
    with Some assms show ?thesis
      by (cases r) (auto simp add: environmentTargets_def Let_def)
  qed
  then show "detected = ?d"
    and "detected = None \<Longrightarrow> saved w' ''bypass'' = Some (js ''true'')"
    by simp_all
qed

lemma bypass_run_triggered:
  assumes "onDeploymentChecks (map trim (js_split 0x2C (in_environment_targets inp))) body
             (in_trigger inp) (in_noop_trigger inp) (in_stable_branch inp) environment \<noteq> Some []"
  shows "early_exit (fst (run_triggered p inp ctx cmt body issue_number environment isHelp w))
     \<longrightarrow> saved (snd (run_triggered p inp ctx cmt body issue_number environment isHelp w))
           ''bypass'' = Some (js ''true'')"
proof (cases "reactEmote_res p")
  case (Inl e)
  then show ?thesis by (simp add: run_triggered_def Let_def early_exit_simps)
next
  case (Inr reaction_id)
  let ?w3 = "setOutput ''actor_handle'' (c_user_login cmt)
               (saveState ''reaction_id'' reaction_id
                 (setOutput ''initial_reaction_id'' reaction_id
                   (saveState ''comment_id'' (c_id cmt)
                     (setOutput ''comment_id'' (c_id cmt)
                       (log_call (ReactEmote (in_reaction inp))
                         (setOutput ''triggered'' (js ''true'') w))))))"
  show ?thesis
  proof (cases isHelp)
    case True
    with Inr have eq: "run_triggered p inp ctx cmt body issue_number environment isHelp w
                     = run_help p reaction_id ?w3"
      by (simp add: run_triggered_def Let_def)
    show ?thesis unfolding eq by (rule bypass_run_help)
  next
    case False
    let ?et = "environmentTargets p inp environment body (in_trigger inp) (in_noop_trigger inp)
                 (in_stable_branch inp) reaction_id (Some (in_environment_urls inp)) ?w3"
    obtain r w4 where et: "?et = (r, w4)" by (cases ?et)
    show ?thesis
    proof (cases r)
      case (Inl e)
      with Inr False et show ?thesis by (simp add: run_triggered_def Let_def early_exit_simps)
    next
      case r: (Inr found)
      obtain detected url where found: "found = (detected, url)" by (cases found)
      note res = environmentTargets_result [OF et [unfolded r found]]
      show ?thesis
      proof (cases detected)
        case None
        with res(2) have "saved w4 ''bypass'' = Some (js ''true'')" by simp
        with Inr False et r found None show ?thesis
          by (simp add: run_triggered_def Let_def)
      next
        case (Some environment')
        with res(1) assms have "environment' \<noteq> []" by auto
        with Inr False et r found Some
        have eq: "run_triggered p inp ctx cmt body issue_number environment isHelp w
                = run_prechecks p inp ctx body issue_number reaction_id (in_trigger inp)
                    environment' url w4"
          by (simp add: run_triggered_def Let_def)
        show ?thesis unfolding eq by (rule bypass_run_prechecks)
      qed
    qed
  qed
qed

lemma bypass_run_classify:
  assumes "contextCheck_res p \<noteq> Inr False"
    and "\<forall>cmt. ctx_comment ctx = Some cmt \<longrightarrow>
           onDeploymentChecks (map trim (js_split 0x2C (in_environment_targets inp)))
             (trim (c_body cmt)) (in_trigger inp) (in_noop_trigger inp) (in_stable_branch inp)
             environment \<noteq> Some []"
  shows "early_exit (fst (run_classify p inp ctx environment w))
     \<longrightarrow> saved (snd (run_classify p inp ctx environment w)) ''bypass'' = Some (js ''true'')"
proof (cases "ctx_comment ctx")
  case None
  then show ?thesis by (simp add: run_classify_def early_exit_simps)
next
  case (Some cmt)
  let ?body = "trim (c_body cmt)"
  let ?prefixOnly = "in_prefix_only inp = js ''true''"
  from assms(2) Some
  have env: "onDeploymentChecks (map trim (js_split 0x2C (in_environment_targets inp)))
               ?body (in_trigger inp) (in_noop_trigger inp) (in_stable_branch inp) environment
             \<noteq> Some []"
    by simp
  show ?thesis
  proof (cases "contextCheck_res p")
    case (Inl e)
    with Some show ?thesis by (simp add: run_classify_def Let_def early_exit_simps)
  next
    case valid: (Inr valid)
    with assms(1) have v: valid by auto
    show ?thesis
    proof (cases "ctx_issue_number ctx")
      case None
      with Some valid v show ?thesis by (simp add: run_classify_def Let_def early_exit_simps)
    next
      case issue: (Some issue_number)
      show ?thesis
      proof (cases "triggerCheck_res p ?prefixOnly ?body (in_trigger inp)")
        case (Inl e)
        with Some valid v issue show ?thesis
          by (simp add: run_classify_def Let_def early_exit_simps)
      next
        case deploy: (Inr isDeploy)
        show ?thesis
        proof (cases "triggerCheck_res p ?prefixOnly ?body (in_help_trigger inp)")
          case (Inl e)
          with Some valid v issue deploy show ?thesis
            by (simp add: run_classify_def Let_def early_exit_simps)
        next
          case hlp: (Inr isHelp)
          show ?thesis
          proof (cases "isDeploy = isHelp")
            case True
            with Some valid v issue deploy hlp show ?thesis
              by (cases isHelp) (simp_all add: run_classify_def Let_def world_ops)
          next
            case False
            have "\<exists>w4. run_classify p inp ctx environment w
                        = run_triggered p inp ctx cmt ?body issue_number environment isHelp w4"
              using Some valid v issue deploy hlp False
              by (cases isHelp) (auto simp add: run_classify_def Let_def)
            then obtain w4 where eq: "run_classify p inp ctx environment w
                = run_triggered p inp ctx cmt ?body issue_number environment isHelp w4" ..
            show ?thesis unfolding eq by (rule bypass_run_triggered [OF env])
          qed
        qed
      qed
    qed
  qed
qed

text \<open>
  On the other paths the state is saved: when \<^verbatim>\<open>run\<close> ends with \<^verbatim>\<open>'safe-exit'\<close>,
  with \<^verbatim>\<open>'failure'\<close> or after a caught exception, the resolved environment is not the
  empty string, and \<^verbatim>\<open>contextCheck\<close> has not answered \<^verbatim>\<open>false\<close> (an exit on which
  \<^verbatim>\<open>run\<close> itself saves nothing), \<^verbatim>\<open>bypass\<close> is \<^verbatim>\<open>'true'\<close>.
\<close>

lemma bypass_on_exit:
  assumes "fst (run p inp ctx w) \<in> {None, Some (js ''safe-exit''), Some (js ''failure'')}"
    and "contextCheck_res p \<noteq> Inr False"
    and "\<forall>cmt environment. ctx_comment ctx = Some cmt \<longrightarrow> in_environment inp = Inr environment \<longrightarrow>
           onDeploymentChecks (map trim (js_split 0x2C (in_environment_targets inp)))
             (trim (c_body cmt)) (in_trigger inp) (in_noop_trigger inp) (in_stable_branch inp)
             environment \<noteq> Some []"
  shows "saved (snd (run p inp ctx w)) ''bypass'' = Some (js ''true'')"
proof -
  obtain r w1 where rt: "run_try p inp ctx w = (r, w1)" by (cases "run_try p inp ctx w")
  show ?thesis
  proof (cases r)
    case (Inl e)
    with rt show ?thesis by (simp add: run_def world_ops)
  next
    case (Inr result)
    with rt assms(1) have e: "early_exit (fst (run_try p inp ctx w))"
      by (simp add: run_def early_exit_def)
    have "early_exit (fst (run_try p inp ctx w))
            \<longrightarrow> saved (snd (run_try p inp ctx w)) ''bypass'' = Some (js ''true'')"
    proof (cases "\<exists>token environment. in_github_token inp = Inr token
          \<and> in_environment inp = Inr environment \<and> getOctokit_res p = None
          \<and> in_merge_deploy_mode inp \<noteq> js ''true''")
      case False
      then show ?thesis
        by (cases "in_github_token inp"; cases "in_environment inp"; cases "getOctokit_res p";
            cases "in_merge_deploy_mode inp = js ''true''")
           (simp_all add: run_try_def Let_def world_ops early_exit_simps)
    next
      case True
      then obtain token environment where t: "in_github_token inp = Inr token"
        "in_environment inp = Inr environment" "getOctokit_res p = None"
        "in_merge_deploy_mode inp \<noteq> js ''true''"
        by blast
      from assms(3) t(2)
      have env: "\<forall>cmt. ctx_comment ctx = Some cmt \<longrightarrow>
           onDeploymentChecks (map trim (js_split 0x2C (in_environment_targets inp)))
             (trim (c_body cmt)) (in_trigger inp) (in_noop_trigger inp) (in_stable_branch inp)
             environment \<noteq> Some []"
        by simp
      have "\<exists>w1. run_try p inp ctx w = run_classify p inp ctx environment w1"
        using t by (auto simp add: run_try_def Let_def)
      then obtain w1 where eq: "run_try p inp ctx w = run_classify p inp ctx environment w1" ..
      show ?thesis unfolding eq by (rule bypass_run_classify [OF assms(2) env])
    qed
    with e have "saved (snd (run_try p inp ctx w)) ''bypass'' = Some (js ''true'')" by simp
    with rt Inr show ?thesis by (simp add: run_def)
  qed
qed

end
